theory Spec2Isabelle
  imports Main "HOL-Library.Word"
begin

unbundle bit_operations_syntax

section \<open>The real-time pod (pod.c): data model\<close>

text \<open>
  The theory embeds the thread services of the nucleus pod: hook registration and firing,
  mode and priority changes, suspend / resume / unblock, start, delete and the periodic
  wait. The kernel build is modelled (the simulator-only blocks under
  \<^verbatim>\<open>__XENO_SIM__\<close> are left out); the other compile-time options are the fields of
  \<open>xnconfig\<close>. Every service runs under the global lock \<^verbatim>\<open>nklock\<close> with interrupts
  off, so a service is one atomic transition of the global state up to the points where
  it calls the rescheduling procedure.
\<close>

subsection \<open>Bit masks\<close>

type_synonym xnflags_t = "32 word"
type_synonym xnticks_t = "64 word"

text \<open>
  Modelled from the spec: the thread status bits of nucleus/thread.h, which is not among
  the sources. The spec names the bits (section 3, Thread); each one is a distinct
  single bit of the status word. Only that the bits are distinct matters below.
\<close>

definition XNSUSP :: xnflags_t where "XNSUSP = 0x00000001"
definition XNPEND :: xnflags_t where "XNPEND = 0x00000002"
definition XNDELAY :: xnflags_t where "XNDELAY = 0x00000004"
definition XNREADY :: xnflags_t where "XNREADY = 0x00000008"
definition XNDORMANT :: xnflags_t where "XNDORMANT = 0x00000010"
definition XNZOMBIE :: xnflags_t where "XNZOMBIE = 0x00000020"
definition XNRESTART :: xnflags_t where "XNRESTART = 0x00000040"
definition XNSTARTED :: xnflags_t where "XNSTARTED = 0x00000080"
definition XNRELAX :: xnflags_t where "XNRELAX = 0x00000200"
definition XNMIGRATE :: xnflags_t where "XNMIGRATE = 0x00000400"
definition XNBOOST :: xnflags_t where "XNBOOST = 0x00001000"
definition XNLOCK :: xnflags_t where "XNLOCK = 0x00004000"
definition XNRRB :: xnflags_t where "XNRRB = 0x00008000"
definition XNASDI :: xnflags_t where "XNASDI = 0x00010000"
definition XNSHIELD :: xnflags_t where "XNSHIELD = 0x00020000"
definition XNRPIOFF :: xnflags_t where "XNRPIOFF = 0x00080000"
definition XNFPU :: xnflags_t where "XNFPU = 0x00100000"
definition XNSHADOW :: xnflags_t where "XNSHADOW = 0x00200000"
definition XNROOT :: xnflags_t where "XNROOT = 0x00400000"

text \<open>
  Modelled from the spec: \<^verbatim>\<open>XNTHREAD_BLOCK_BITS\<close> (spec section 3:
  BLOCK_BITS = {SUSP, DELAY, PEND, DORMANT, RELAX}) and \<^verbatim>\<open>XNTHREAD_MODE_BITS\<close>
  (the five mode flags listed in the comment of \<^verbatim>\<open>xnpod_set_thread_mode\<close>).
\<close>

definition XNTHREAD_BLOCK_BITS :: xnflags_t where
  "XNTHREAD_BLOCK_BITS = XNSUSP OR XNPEND OR XNDELAY OR XNDORMANT OR XNRELAX"

definition XNTHREAD_MODE_BITS :: xnflags_t where
  "XNTHREAD_MODE_BITS = XNLOCK OR XNRRB OR XNASDI OR XNSHIELD OR XNRPIOFF"

text \<open>Modelled from the spec: the thread information bits (spec section 3, \<open>info\<close>).\<close>

definition XNTIMEO :: xnflags_t where "XNTIMEO = 0x00000001"
definition XNRMID :: xnflags_t where "XNRMID = 0x00000002"
definition XNBREAK :: xnflags_t where "XNBREAK = 0x00000004"
definition XNKICKED :: xnflags_t where "XNKICKED = 0x00000008"
definition XNWAKEN :: xnflags_t where "XNWAKEN = 0x00000010"
definition XNROBBED :: xnflags_t where "XNROBBED = 0x00000020"
definition XNPRIOSET :: xnflags_t where "XNPRIOSET = 0x00000100"

text \<open>Modelled from the spec: scheduler slot status bits, and the wait channel's
  \<^verbatim>\<open>XNSYNCH_DREORD\<close> flag (spec sections 3 and 4.7).\<close>

definition XNKCOUT :: xnflags_t where "XNKCOUT = 0x80000000"
definition XNSWLOCK :: xnflags_t where "XNSWLOCK = 0x20000000"
definition XNSYNCH_DREORD :: xnflags_t where "XNSYNCH_DREORD = 0x00000004"

text \<open>Modelled from the spec: the error codes (spec section 7), with the values of the
  host's errno.h, and the hook types of nucleus/pod.h.\<close>

definition EINTR :: int where "EINTR = 4"
definition EWOULDBLOCK :: int where "EWOULDBLOCK = 11"
definition ENOMEM :: int where "ENOMEM = 12"
definition EBUSY :: int where "EBUSY = 16"
definition EINVAL :: int where "EINVAL = 22"
definition ETIMEDOUT :: int where "ETIMEDOUT = 110"

definition XNHOOK_THREAD_START :: int where "XNHOOK_THREAD_START = 1"
definition XNHOOK_THREAD_SWITCH :: int where "XNHOOK_THREAD_SWITCH = 2"
definition XNHOOK_THREAD_DELETE :: int where "XNHOOK_THREAD_DELETE = 3"

text \<open>Modelled from the spec: timeouts (spec section 5, Cancellation) are relative or
  absolute, monotonic or real-time; \<^verbatim>\<open>XN_INFINITE\<close> is the zero tick count.\<close>

datatype xntmode_t = XN_RELATIVE | XN_ABSOLUTE | XN_REALTIME

definition XN_INFINITE :: xnticks_t where "XN_INFINITE = 0"

subsection \<open>Records\<close>

text \<open>
  A pointer to a thread, to a wait channel or to a routine is its address, a natural
  number; \<open>None\<close> is the null pointer. A CPU mask (\<^verbatim>\<open>xnarch_cpumask_t\<close>) is the set
  of CPU numbers it holds.
\<close>

type_synonym tid = nat
type_synonym cpuid = nat
type_synonym xnarch_cpumask_t = "nat set"

record xntimer_t =
  running :: bool
  tsched :: cpuid
  date :: xnticks_t
  interval :: xnticks_t
  pexpect :: xnticks_t

record xnthread_t =
  state :: xnflags_t
  info :: xnflags_t
  wchan :: "nat option"
  bprio :: int
  cprio :: int
  sched :: cpuid
  affinity :: xnarch_cpumask_t
  imask :: int
  imode :: xnflags_t
  entry :: nat
  cookie :: nat
  rrperiod :: xnticks_t
  rrcredit :: xnticks_t
  schedlck :: "32 word"
  rtimer :: xntimer_t
  ptimer :: xntimer_t
  user_task :: bool

record xnsched_t =
  curr :: tid
  resched :: xnarch_cpumask_t
  status :: xnflags_t
  fpuholder :: "tid option"
  runq :: "tid set"

text \<open>
  The global state: the pod singleton \<^verbatim>\<open>nkpod_struct\<close> (thread queue, hook queues,
  scheduler slots), the globals \<^verbatim>\<open>nkaffinity\<close> and the online CPU map, the CPU the
  caller runs on, the raw clock of the time base, the status word of each wait channel,
  and the memory holding the thread control blocks. A hook queue holds the routine
  address of each hook record, head first. The ready queue of a slot is kept as the set
  of threads linked to it: its ordering is the scheduling class's business.
\<close>

record nucleus =
  threadq :: "tid list"
  threadq_rev :: "32 word"
  tstartq :: "nat list"
  tswitchq :: "nat list"
  tdeleteq :: "nat list"
  sched_slot :: "cpuid \<Rightarrow> xnsched_t"
  nkaffinity :: xnarch_cpumask_t
  cpu_online_map :: xnarch_cpumask_t
  current_cpu :: cpuid
  rawclock :: xnticks_t
  synch_status :: "nat \<Rightarrow> xnflags_t"
  tcb :: "tid \<Rightarrow> xnthread_t"

record xnconfig =
  XENO_DEBUG_NUCLEUS :: bool
  CONFIG_XENO_OPT_PERVASIVE :: bool
  CONFIG_SMP :: bool
  CONFIG_XENO_OPT_ISHIELD :: bool
  CONFIG_XENO_HW_UNLOCKED_SWITCH :: bool
  CONFIG_XENO_HW_FPU :: bool

text \<open>
  Collaborators whose code is outside the pod and whose effect the pod cannot know are
  parameters of the model: the rescheduling procedure as its caller sees it (the state
  in which the caller runs again), the shadow bridge's start, the synchronisation
  layer's ownership release and sleeper reordering, the timer's overrun count and the
  system heap's allocator.
\<close>

record xnenv =
  xnpod_schedule :: "nucleus \<Rightarrow> nucleus"
  xnshadow_start :: "tid \<Rightarrow> nucleus \<Rightarrow> nucleus"
  xnsynch_release_all_ownerships :: "tid \<Rightarrow> nucleus \<Rightarrow> nucleus"
  xnsynch_renice_sleeper :: "tid \<Rightarrow> nucleus \<Rightarrow> nucleus"
  xntimer_get_overruns :: "xntimer_t \<Rightarrow> xnticks_t \<Rightarrow> 32 word \<times> xntimer_t"
  xnmalloc :: "nucleus \<Rightarrow> bool"

text \<open>\<^verbatim>\<open>xnpod_fatal\<close> latches the fatal state and halts: the service does not return.\<close>

datatype fault = Fatal

subsection \<open>Hook queues\<close>

datatype hookq_t = TSTARTQ | TSWITCHQ | TDELETEQ

text \<open>The \<^verbatim>\<open>switch (type)\<close> of \<^verbatim>\<open>xnpod_add_hook\<close> and \<^verbatim>\<open>xnpod_remove_hook\<close>.\<close>

definition hookq_of_type :: "int \<Rightarrow> hookq_t option" where
  "hookq_of_type type =
     (if type = XNHOOK_THREAD_START then Some TSTARTQ
      else if type = XNHOOK_THREAD_SWITCH then Some TSWITCHQ
      else if type = XNHOOK_THREAD_DELETE then Some TDELETEQ
      else None)"

fun get_hookq :: "nucleus \<Rightarrow> hookq_t \<Rightarrow> nat list" where
  "get_hookq pod TSTARTQ = tstartq pod"
| "get_hookq pod TSWITCHQ = tswitchq pod"
| "get_hookq pod TDELETEQ = tdeleteq pod"

fun set_hookq :: "nucleus \<Rightarrow> hookq_t \<Rightarrow> nat list \<Rightarrow> nucleus" where
  "set_hookq pod TSTARTQ q = pod\<lparr>tstartq := q\<rparr>"
| "set_hookq pod TSWITCHQ q = pod\<lparr>tswitchq := q\<rparr>"
| "set_hookq pod TDELETEQ q = pod\<lparr>tdeleteq := q\<rparr>"

text \<open>Modelled from the spec: \<^verbatim>\<open>prependq\<close> of nucleus/queue.h links a holder at the
  head of a queue (spec section 4.6: hook queues are prepended).\<close>

definition prependq :: "'a list \<Rightarrow> 'a \<Rightarrow> 'a list" where
  "prependq q holder = holder # q"

definition xnpod_add_hook :: "xnenv \<Rightarrow> nucleus \<Rightarrow> int \<Rightarrow> nat \<Rightarrow> int \<times> nucleus" where
  "xnpod_add_hook env pod type routine =
     (case hookq_of_type type of
        None \<Rightarrow> (- EINVAL, pod)
      | Some hookq \<Rightarrow>
          if xnmalloc env pod
          then (0, set_hookq pod hookq (prependq (get_hookq pod hookq) routine))
          else (- ENOMEM, pod))"

text \<open>
  The search loop of \<^verbatim>\<open>xnpod_remove_hook\<close>: walk the queue from its head and unlink
  the first hook whose routine is the given one; \<open>None\<close> when the walk reaches the end.
\<close>

fun remove_hook_loop :: "nat list \<Rightarrow> nat \<Rightarrow> nat list option" where
  "remove_hook_loop [] routine = None"
| "remove_hook_loop (hook # rest) routine =
     (if hook = routine then Some rest
      else map_option ((#) hook) (remove_hook_loop rest routine))"

definition xnpod_remove_hook :: "nucleus \<Rightarrow> int \<Rightarrow> nat \<Rightarrow> int \<times> nucleus" where
  "xnpod_remove_hook pod type routine =
     (case hookq_of_type type of
        None \<Rightarrow> (- EINVAL, pod)
      | Some hookq \<Rightarrow>
          (case remove_hook_loop (get_hookq pod hookq) routine of
             Some q \<Rightarrow> (0, set_hookq pod hookq q)
           | None \<Rightarrow> (- EINVAL, pod)))"

text \<open>
  \<^verbatim>\<open>xnpod_fire_callouts\<close>: set \<^verbatim>\<open>XNKCOUT\<close> on the current slot, walk the queue from
  its head calling each routine with the thread, clear \<^verbatim>\<open>XNKCOUT\<close>. A routine is user
  code: the model records the calls in the order they are made and takes the routines
  not to alter the queue being walked.
\<close>

fun fire_loop :: "nat list \<Rightarrow> tid \<Rightarrow> (nat \<times> tid) list" where
  "fire_loop [] thread = []"
| "fire_loop (hook # rest) thread = (hook, thread) # fire_loop rest thread"

definition upd_sched :: "nucleus \<Rightarrow> cpuid \<Rightarrow> (xnsched_t \<Rightarrow> xnsched_t) \<Rightarrow> nucleus" where
  "upd_sched pod cpu f = pod\<lparr>sched_slot := (sched_slot pod)(cpu := f (sched_slot pod cpu))\<rparr>"

definition upd_thread :: "nucleus \<Rightarrow> tid \<Rightarrow> (xnthread_t \<Rightarrow> xnthread_t) \<Rightarrow> nucleus" where
  "upd_thread pod thread f = pod\<lparr>tcb := (tcb pod)(thread := f (tcb pod thread))\<rparr>"

definition xnpod_fire_callouts ::
  "nucleus \<Rightarrow> nat list \<Rightarrow> tid \<Rightarrow> (nat \<times> tid) list \<times> nucleus" where
  "xnpod_fire_callouts pod hookq thread =
     (let cpu = current_cpu pod;
          pod1 = upd_sched pod cpu (\<lambda>s. s\<lparr>status := status s OR XNKCOUT\<rparr>);
          calls = fire_loop hookq thread;
          pod2 = upd_sched pod1 cpu (\<lambda>s. s\<lparr>status := status s AND NOT XNKCOUT\<rparr>)
      in (calls, pod2))"

subsection \<open>Thread status macros and the collaborators' primitives\<close>

text \<open>The accessors of nucleus/thread.h; the thread pointer is dereferenced in the
  memory of the state.\<close>

definition xnthread_test_state :: "nucleus \<Rightarrow> tid \<Rightarrow> xnflags_t \<Rightarrow> xnflags_t" where
  "xnthread_test_state pod thread bits = state (tcb pod thread) AND bits"

definition xnthread_set_state :: "nucleus \<Rightarrow> tid \<Rightarrow> xnflags_t \<Rightarrow> nucleus" where
  "xnthread_set_state pod thread bits =
     upd_thread pod thread (\<lambda>t. t\<lparr>state := state t OR bits\<rparr>)"

definition xnthread_clear_state :: "nucleus \<Rightarrow> tid \<Rightarrow> xnflags_t \<Rightarrow> nucleus" where
  "xnthread_clear_state pod thread bits =
     upd_thread pod thread (\<lambda>t. t\<lparr>state := state t AND NOT bits\<rparr>)"

definition xnthread_test_info :: "nucleus \<Rightarrow> tid \<Rightarrow> xnflags_t \<Rightarrow> xnflags_t" where
  "xnthread_test_info pod thread bits = info (tcb pod thread) AND bits"

definition xnthread_set_info :: "nucleus \<Rightarrow> tid \<Rightarrow> xnflags_t \<Rightarrow> nucleus" where
  "xnthread_set_info pod thread bits =
     upd_thread pod thread (\<lambda>t. t\<lparr>info := info t OR bits\<rparr>)"

definition xnthread_clear_info :: "nucleus \<Rightarrow> tid \<Rightarrow> xnflags_t \<Rightarrow> nucleus" where
  "xnthread_clear_info pod thread bits =
     upd_thread pod thread (\<lambda>t. t\<lparr>info := info t AND NOT bits\<rparr>)"

definition xnpod_current_thread :: "nucleus \<Rightarrow> tid" where
  "xnpod_current_thread pod = curr (sched_slot pod (current_cpu pod))"

text \<open>
  Modelled from the spec: the scheduling class's queue operations and the resched mask
  (sched.h and sched.c are not among the sources). Spec section 3: a thread has
  \<^verbatim>\<open>READY\<close> exactly when it is linked to the ready queue of its slot, and
  \<open>resched\<close> is the set of CPUs whose slots need a reschedule, kept in the slot of
  the CPU that asks. \<^verbatim>\<open>xnsched_putback\<close> reinserts a runnable thread (spec section
  4.7), so it leaves the thread linked and \<^verbatim>\<open>READY\<close>.
\<close>

definition xnsched_enqueue :: "nucleus \<Rightarrow> tid \<Rightarrow> nucleus" where
  "xnsched_enqueue pod thread =
     upd_sched pod (sched (tcb pod thread)) (\<lambda>s. s\<lparr>runq := insert thread (runq s)\<rparr>)"

definition xnsched_dequeue :: "nucleus \<Rightarrow> tid \<Rightarrow> nucleus" where
  "xnsched_dequeue pod thread =
     upd_sched pod (sched (tcb pod thread)) (\<lambda>s. s\<lparr>runq := runq s - {thread}\<rparr>)"

definition xnsched_putback :: "nucleus \<Rightarrow> tid \<Rightarrow> nucleus" where
  "xnsched_putback pod thread = xnthread_set_state (xnsched_enqueue pod thread) thread XNREADY"

definition xnsched_set_resched :: "nucleus \<Rightarrow> cpuid \<Rightarrow> nucleus" where
  "xnsched_set_resched pod cpu =
     upd_sched pod (current_cpu pod) (\<lambda>s. s\<lparr>resched := insert cpu (resched s)\<rparr>)"

text \<open>
  Modelled from the spec: the timer services used by the pod (timer.c is not among the
  sources). Starting a timer arms it unless the deadline is absolute and already in the
  past, which is reported by a non-zero code (spec section 4.4, step 3); a relative
  timeout counts from the current clock value. Real-time dates are taken on the scale
  of the raw clock.
\<close>

definition xntimer_set_sched :: "xntimer_t \<Rightarrow> cpuid \<Rightarrow> xntimer_t" where
  "xntimer_set_sched timer cpu = timer\<lparr>tsched := cpu\<rparr>"

definition xntimer_start ::
  "xnticks_t \<Rightarrow> xntimer_t \<Rightarrow> xnticks_t \<Rightarrow> xnticks_t \<Rightarrow> xntmode_t \<Rightarrow> int \<times> xntimer_t" where
  "xntimer_start now timer val ival mode =
     (if mode \<noteq> XN_RELATIVE \<and> val < now then (- ETIMEDOUT, timer)
      else (0, timer\<lparr>running := True,
                     date := (if mode = XN_RELATIVE then now + val else val),
                     interval := ival\<rparr>))"

definition xntimer_stop :: "xntimer_t \<Rightarrow> xntimer_t" where
  "xntimer_stop timer = timer\<lparr>running := False\<rparr>"

definition xntimer_destroy :: "xntimer_t \<Rightarrow> xntimer_t" where
  "xntimer_destroy timer = xntimer_stop timer"

definition xntimer_running_p :: "xntimer_t \<Rightarrow> bool" where
  "xntimer_running_p timer = running timer"

text \<open>
  Modelled from the spec: \<^verbatim>\<open>xnsynch_forget_sleeper\<close> (synch.c is not among the
  sources) detaches a thread from its wait channel. Spec section 3 ties \<^verbatim>\<open>PEND\<close> to
  a non-null \<open>wchan\<close> and scenarios S3 and S4 expect \<open>wchan\<close> cleared after the
  wake-up, so the call clears both.
\<close>

definition xnsynch_forget_sleeper :: "nucleus \<Rightarrow> tid \<Rightarrow> nucleus" where
  "xnsynch_forget_sleeper pod thread =
     upd_thread (xnthread_clear_state pod thread XNPEND) thread (\<lambda>t. t\<lparr>wchan := None\<rparr>)"

text \<open>
  Modelled from the spec: \<^verbatim>\<open>xnpod_lock_sched\<close> (an inline of nucleus/pod.h, spec
  section 6) takes the scheduler lock for the current thread: it counts the nesting and
  sets \<^verbatim>\<open>XNLOCK\<close> on the first level.
\<close>

definition xnpod_lock_sched :: "nucleus \<Rightarrow> nucleus" where
  "xnpod_lock_sched pod =
     (let c = xnpod_current_thread pod;
          first = (schedlck (tcb pod c) = 0);
          pod1 = upd_thread pod c (\<lambda>t. t\<lparr>schedlck := schedlck t + 1\<rparr>)
      in if first then xnthread_set_state pod1 c XNLOCK else pod1)"

text \<open>Modelled from the spec: \<^verbatim>\<open>removeq\<close> of nucleus/queue.h unlinks a holder;
  \<^verbatim>\<open>xnarch_first_cpu\<close> is the lowest CPU of a mask.\<close>

definition removeq :: "'a list \<Rightarrow> 'a \<Rightarrow> 'a list" where
  "removeq q holder = remove1 holder q"

definition xnarch_first_cpu :: "xnarch_cpumask_t \<Rightarrow> cpuid" where
  "xnarch_first_cpu m = Min m"

text \<open>\<^verbatim>\<open>__xnpod_giveup_fpu\<close> of pod.c: the slot forgets a holder that goes away.\<close>

definition xnpod_giveup_fpu :: "xnconfig \<Rightarrow> nucleus \<Rightarrow> cpuid \<Rightarrow> tid \<Rightarrow> nucleus" where
  "xnpod_giveup_fpu cfg pod cpu thread =
     (if CONFIG_XENO_HW_FPU cfg \<and> fpuholder (sched_slot pod cpu) = Some thread
      then upd_sched pod cpu (\<lambda>s. s\<lparr>fpuholder := None\<rparr>)
      else pod)"

section \<open>The thread services\<close>

subsection \<open>xnpod_set_thread_mode\<close>

text \<open>\<^verbatim>\<open>xnshadow_reset_shield\<close>, called last under \<^verbatim>\<open>CONFIG_XENO_OPT_ISHIELD\<close>,
  reprograms the interrupt shield of the host and touches nothing of the state kept
  here.\<close>

definition xnpod_set_thread_mode ::
  "xnconfig \<Rightarrow> nucleus \<Rightarrow> tid \<Rightarrow> xnflags_t \<Rightarrow> xnflags_t \<Rightarrow> xnflags_t \<times> nucleus" where
  "xnpod_set_thread_mode cfg pod thread clrmask setmask =
     (let curr_thread = xnpod_current_thread pod;
          setmask1 = (if CONFIG_XENO_OPT_ISHIELD cfg then setmask else setmask AND NOT XNSHIELD);
          oldmode = state (tcb pod thread) AND XNTHREAD_MODE_BITS;
          pod1 = xnthread_clear_state pod thread (clrmask AND XNTHREAD_MODE_BITS);
          pod2 = xnthread_set_state pod1 thread (setmask1 AND XNTHREAD_MODE_BITS);
          pod3 = (if curr_thread = thread then
                    (if oldmode AND XNLOCK = 0 then
                       (if xnthread_test_state pod2 thread XNLOCK \<noteq> 0
                        then xnpod_lock_sched pod2 else pod2)
                     else if xnthread_test_state pod2 thread XNLOCK = 0
                       then upd_thread pod2 thread (\<lambda>t. t\<lparr>schedlck := 0\<rparr>)
                       else pod2)
                  else pod2);
          pod4 = (if oldmode AND XNRRB = 0 \<and> xnthread_test_state pod3 thread XNRRB \<noteq> 0
                  then upd_thread pod3 thread (\<lambda>t. t\<lparr>rrcredit := rrperiod t\<rparr>)
                  else pod3)
      in (oldmode, pod4))"

subsection \<open>xnpod_renice_thread\<close>

text \<open>\<^verbatim>\<open>xnshadow_renice\<close> forwards the priority to the host task of a relaxed shadow
  and touches nothing of the state kept here.\<close>

definition xnpod_renice_thread_inner ::
  "xnenv \<Rightarrow> xnconfig \<Rightarrow> nucleus \<Rightarrow> tid \<Rightarrow> int \<Rightarrow> int \<Rightarrow> nucleus" where
  "xnpod_renice_thread_inner env cfg pod thread prio propagate =
     (let oldprio = cprio (tcb pod thread);
          pod1 = upd_thread pod thread (\<lambda>t. t\<lparr>bprio := prio\<rparr>);
          pod2 = (if xnthread_test_state pod1 thread XNBOOST = 0 \<or> prio > oldprio then
                    (let pod_a = upd_thread pod1 thread (\<lambda>t. t\<lparr>cprio := prio\<rparr>);
                         pod_b = (case wchan (tcb pod_a thread) of
                                    None \<Rightarrow> pod_a
                                  | Some w \<Rightarrow>
                                      if prio \<noteq> oldprio \<and>
                                         synch_status pod_a w AND XNSYNCH_DREORD = 0
                                      then xnsynch_renice_sleeper env thread pod_a
                                      else pod_a)
                     in if xnthread_test_state pod_b thread (XNTHREAD_BLOCK_BITS OR XNLOCK) = 0
                        then xnsched_putback pod_b thread else pod_b)
                  else pod1)
      in if CONFIG_XENO_OPT_PERVASIVE cfg \<and> propagate \<noteq> 0 then
           (if xnthread_test_state pod2 thread XNRELAX \<noteq> 0 then pod2
            else if xnthread_test_state pod2 thread XNSHADOW \<noteq> 0
              then xnthread_set_info pod2 thread XNPRIOSET
              else pod2)
         else pod2)"

definition xnpod_renice_thread :: "xnenv \<Rightarrow> xnconfig \<Rightarrow> nucleus \<Rightarrow> tid \<Rightarrow> int \<Rightarrow> nucleus" where
  "xnpod_renice_thread env cfg pod thread prio =
     xnpod_renice_thread_inner env cfg pod thread prio 1"

subsection \<open>xnpod_resume_thread and xnpod_unblock_thread\<close>

text \<open>The labels \<^verbatim>\<open>enqueue:\<close> and \<^verbatim>\<open>clear_wchan:\<close> of \<^verbatim>\<open>xnpod_resume_thread\<close>;
  \<open>sch\<close> is the slot read from \<^verbatim>\<open>thread->sched\<close> on entry.\<close>

definition resume_enqueue :: "nucleus \<Rightarrow> tid \<Rightarrow> cpuid \<Rightarrow> nucleus" where
  "resume_enqueue pod thread sch =
     xnsched_set_resched (xnthread_set_state (xnsched_enqueue pod thread) thread XNREADY) sch"

definition resume_clear_wchan :: "nucleus \<Rightarrow> tid \<Rightarrow> cpuid \<Rightarrow> xnflags_t \<Rightarrow> nucleus" where
  "resume_clear_wchan pod thread sch msk =
     resume_enqueue
       (if msk AND NOT XNDELAY \<noteq> 0 \<and> wchan (tcb pod thread) \<noteq> None
        then xnsynch_forget_sleeper pod thread else pod)
       thread sch"

definition xnpod_resume_thread :: "nucleus \<Rightarrow> tid \<Rightarrow> xnflags_t \<Rightarrow> nucleus" where
  "xnpod_resume_thread pod thread msk =
     (let sch = sched (tcb pod thread) in
      if xnthread_test_state pod thread XNTHREAD_BLOCK_BITS = 0 then
        resume_enqueue
          (if xnthread_test_state pod thread XNREADY \<noteq> 0
           then xnsched_dequeue pod thread else pod)
          thread sch
      else
        let pod1 = xnthread_clear_state pod thread msk;
            pod2 = (if msk AND XNDELAY \<noteq> 0
                    then upd_thread pod1 thread (\<lambda>t. t\<lparr>rtimer := xntimer_stop (rtimer t)\<rparr>)
                    else pod1)
        in
        if xnthread_test_state pod2 thread XNTHREAD_BLOCK_BITS = 0 then
          resume_clear_wchan pod2 thread sch msk
        else if msk AND XNDELAY \<noteq> 0 then
          (let mask1 = xnthread_test_state pod2 thread XNPEND in
           if mask1 = 0 then pod2
           else if wchan (tcb pod2 thread) \<noteq> None then
             (let pod3 = xnsynch_forget_sleeper pod2 thread in
              if xnthread_test_state pod3 thread XNTHREAD_BLOCK_BITS \<noteq> 0 then pod3
              else resume_clear_wchan pod3 thread sch mask1)
           else resume_clear_wchan pod2 thread sch mask1)
        else if xnthread_test_state pod2 thread XNDELAY \<noteq> 0 then
          (let pod3 = (if msk AND XNPEND \<noteq> 0
                       then xnthread_clear_state
                              (upd_thread pod2 thread (\<lambda>t. t\<lparr>rtimer := xntimer_stop (rtimer t)\<rparr>))
                              thread XNDELAY
                       else pod2)
           in if xnthread_test_state pod3 thread XNTHREAD_BLOCK_BITS \<noteq> 0 then pod3
              else resume_clear_wchan pod3 thread sch msk)
        else if msk AND XNPEND \<noteq> 0 \<and> wchan (tcb pod2 thread) \<noteq> None then
          xnsynch_forget_sleeper pod2 thread
        else pod2)"

definition xnpod_unblock_thread :: "nucleus \<Rightarrow> tid \<Rightarrow> int \<times> nucleus" where
  "xnpod_unblock_thread pod thread =
     (let (ret, pod1) =
            (if xnthread_test_state pod thread XNDELAY \<noteq> 0
               then (1, xnpod_resume_thread pod thread XNDELAY)
             else if xnthread_test_state pod thread XNPEND \<noteq> 0
               then (1, xnpod_resume_thread pod thread XNPEND)
             else (0, pod))
      in if ret \<noteq> 0 then (ret, xnthread_set_info pod1 thread XNBREAK) else (ret, pod1))"

subsection \<open>xnpod_suspend_thread\<close>

text \<open>
  The tail of \<^verbatim>\<open>xnpod_suspend_thread\<close>, from the test of \<^verbatim>\<open>XNREADY\<close> on: unlink the
  thread, add the suspensive bits, keep the wait channel, and reschedule when the thread
  is the current one of its slot. The other branch, \<^verbatim>\<open>xnshadow_suspend\<close> for a relaxed
  shadow that is not current, only signals the host task.
\<close>

definition suspend_block ::
  "xnenv \<Rightarrow> nucleus \<Rightarrow> tid \<Rightarrow> xnflags_t \<Rightarrow> nat option \<Rightarrow> cpuid \<Rightarrow> nucleus" where
  "suspend_block env pod thread msk wchn sch =
     (let pod1 = (if xnthread_test_state pod thread XNREADY \<noteq> 0
                  then xnthread_clear_state (xnsched_dequeue pod thread) thread XNREADY
                  else pod);
          pod2 = xnthread_set_state pod1 thread msk;
          pod3 = (if wchn \<noteq> None then upd_thread pod2 thread (\<lambda>t. t\<lparr>wchan := wchn\<rparr>) else pod2)
      in if thread = curr (sched_slot pod3 sch) then xnpod_schedule env pod3 else pod3)"

definition xnpod_suspend_thread ::
  "xnenv \<Rightarrow> xnconfig \<Rightarrow> nucleus \<Rightarrow> tid \<Rightarrow> xnflags_t \<Rightarrow> xnticks_t \<Rightarrow> xntmode_t \<Rightarrow> nat option
     \<Rightarrow> fault + nucleus" where
  "xnpod_suspend_thread env cfg pod thread msk timeout timeout_mode wchn =
     (if XENO_DEBUG_NUCLEUS cfg \<and> xnthread_test_state pod thread XNROOT \<noteq> 0 then Inl Fatal
      else if XENO_DEBUG_NUCLEUS cfg \<and> wchan (tcb pod thread) \<noteq> None \<and> wchn \<noteq> None
        then Inl Fatal
      else
        let sch = sched (tcb pod thread);
            pod1 = (if thread = curr (sched_slot pod sch) then xnsched_set_resched pod sch else pod);
            runnable = (xnthread_test_state pod1 thread XNTHREAD_BLOCK_BITS = 0)
        in
        if runnable \<and> CONFIG_XENO_OPT_PERVASIVE cfg \<and> xnthread_test_info pod1 thread XNKICKED \<noteq> 0
        then
          (if XENO_DEBUG_NUCLEUS cfg \<and> msk AND XNRELAX \<noteq> 0 then Inl Fatal
           else Inr (xnthread_set_info
                       (xnthread_clear_info pod1 thread (XNRMID OR XNTIMEO)) thread XNBREAK))
        else
          let pod2 = (if runnable
                      then xnthread_clear_info pod1 thread
                             (XNRMID OR XNTIMEO OR XNBREAK OR XNWAKEN OR XNROBBED)
                      else pod1)
          in
          if timeout \<noteq> XN_INFINITE \<or> timeout_mode \<noteq> XN_RELATIVE then
            (let pod3 = upd_thread pod2 thread
                          (\<lambda>t. t\<lparr>rtimer := xntimer_set_sched (rtimer t) (sched t)\<rparr>);
                 (rc, timer) = xntimer_start (rawclock pod3) (rtimer (tcb pod3 thread))
                                 timeout XN_INFINITE timeout_mode;
                 pod4 = upd_thread pod3 thread (\<lambda>t. t\<lparr>rtimer := timer\<rparr>)
             in if rc \<noteq> 0 then
                  (let pod5 = (if wchn \<noteq> None
                               then xnsynch_forget_sleeper
                                      (upd_thread pod4 thread (\<lambda>t. t\<lparr>wchan := wchn\<rparr>)) thread
                               else pod4)
                   in Inr (xnthread_set_info pod5 thread XNTIMEO))
                else Inr (suspend_block env (xnthread_set_state pod4 thread XNDELAY)
                            thread msk wchn sch))
          else Inr (suspend_block env pod2 thread msk wchn sch))"

subsection \<open>xnpod_start_thread\<close>

text \<open>\<^verbatim>\<open>xnarch_init_thread\<close> builds the initial stack frame and touches nothing of the
  state kept here. The calls made by the start hooks are dropped from the result.\<close>

definition xnpod_start_thread ::
  "xnenv \<Rightarrow> xnconfig \<Rightarrow> nucleus \<Rightarrow> tid \<Rightarrow> xnflags_t \<Rightarrow> int \<Rightarrow> xnarch_cpumask_t \<Rightarrow> nat \<Rightarrow> nat
     \<Rightarrow> int \<times> nucleus" where
  "xnpod_start_thread env cfg pod thread mode imsk affin entr cook =
     (if xnthread_test_state pod thread XNDORMANT = 0 then (- EBUSY, pod)
      else
        let affin1 = affin \<inter> nkaffinity pod;
            pod1 = upd_thread pod thread (\<lambda>t. t\<lparr>affinity := affin1 \<inter> cpu_online_map pod\<rparr>)
        in
        if affinity (tcb pod1 thread) = {} then (- EINVAL, pod1)
        else
          let pod2 = (if CONFIG_SMP cfg \<and> sched (tcb pod1 thread) \<notin> affinity (tcb pod1 thread)
                      then upd_thread pod1 thread
                             (\<lambda>t. t\<lparr>sched := xnarch_first_cpu (affinity t)\<rparr>)
                      else pod1)
          in
          if xnthread_test_state pod2 thread XNSTARTED \<noteq> 0 then (- EBUSY, pod2)
          else
            let mode1 = (if CONFIG_XENO_OPT_ISHIELD cfg then mode else mode AND NOT XNSHIELD);
                pod3 = xnthread_set_state pod2 thread
                         ((mode1 AND (XNTHREAD_MODE_BITS OR XNSUSP)) OR XNSTARTED);
                pod4 = upd_thread pod3 thread
                         (\<lambda>t. t\<lparr>imask := imsk, imode := mode1 AND XNTHREAD_MODE_BITS,
                                 entry := entr, cookie := cook\<rparr>);
                pod5 = (if xnthread_test_state pod4 thread XNRRB \<noteq> 0
                        then upd_thread pod4 thread (\<lambda>t. t\<lparr>rrcredit := rrperiod t\<rparr>)
                        else pod4)
            in
            if CONFIG_XENO_OPT_PERVASIVE cfg \<and> xnthread_test_state pod5 thread XNSHADOW \<noteq> 0
            then (0, xnpod_schedule env (xnshadow_start env thread pod5))
            else
              let pod6 = xnpod_resume_thread pod5 thread XNDORMANT;
                  pod7 = (if tstartq pod6 \<noteq> [] \<and> xnthread_test_state pod6 thread XNROOT = 0
                          then snd (xnpod_fire_callouts pod6 (tstartq pod6) thread)
                          else pod6)
              in (0, xnpod_schedule env pod7))"

subsection \<open>xnpod_delete_thread\<close>

text \<open>
  For a shadow with a host task that is neither dormant nor current the deletion is
  deferred: \<^verbatim>\<open>xnshadow_send_sig\<close> only signals the host task. \<^verbatim>\<open>xnthread_cleanup_tcb\<close>,
  \<^verbatim>\<open>xnarch_finalize_no_switch\<close> and \<^verbatim>\<open>xnfreesync\<close> release memory and touch
  nothing of the state kept here. The calls made by the delete hooks are dropped from
  the result.
\<close>

definition xnpod_delete_thread :: "xnenv \<Rightarrow> xnconfig \<Rightarrow> nucleus \<Rightarrow> tid \<Rightarrow> fault + nucleus" where
  "xnpod_delete_thread env cfg pod thread =
     (if XENO_DEBUG_NUCLEUS cfg \<and> xnthread_test_state pod thread XNROOT \<noteq> 0 then Inl Fatal
      else if xnthread_test_state pod thread XNZOMBIE \<noteq> 0 then Inr pod
      else
        let sch = sched (tcb pod thread) in
        if CONFIG_XENO_OPT_PERVASIVE cfg \<and> user_task (tcb pod thread) \<and>
           xnthread_test_state pod thread XNDORMANT = 0 \<and> xnpod_current_thread pod \<noteq> thread
        then Inr pod
        else
          let pod1 = pod\<lparr>threadq := removeq (threadq pod) thread,
                        threadq_rev := threadq_rev pod + 1\<rparr>
          in
          if xnthread_test_state pod1 thread XNREADY \<noteq> 0 \<and> XENO_DEBUG_NUCLEUS cfg \<and>
             xnthread_test_state pod1 thread XNTHREAD_BLOCK_BITS \<noteq> 0
          then Inl Fatal
          else
            let pod2 = (if xnthread_test_state pod1 thread XNREADY \<noteq> 0
                        then xnthread_clear_state (xnsched_dequeue pod1 thread) thread XNREADY
                        else pod1);
                pod3 = upd_thread pod2 thread
                         (\<lambda>t. t\<lparr>rtimer := xntimer_destroy (rtimer t),
                                 ptimer := xntimer_destroy (ptimer t)\<rparr>);
                pod4 = (if xnthread_test_state pod3 thread XNPEND \<noteq> 0
                        then xnsynch_forget_sleeper pod3 thread else pod3);
                pod5 = xnsynch_release_all_ownerships env thread pod4;
                pod6 = xnpod_giveup_fpu cfg pod5 sch thread;
                pod7 = xnthread_set_state pod6 thread XNZOMBIE
            in
            if curr (sched_slot pod7 sch) = thread
            then Inr (xnpod_schedule env (xnsched_set_resched pod7 sch))
            else if CONFIG_XENO_HW_UNLOCKED_SWITCH cfg \<longrightarrow>
                    status (sched_slot pod7 sch) AND XNSWLOCK = 0 \<and>
                    xnthread_test_state pod7 thread XNMIGRATE = 0
            then Inr (if tdeleteq pod7 \<noteq> [] \<and> xnthread_test_state pod7 thread XNROOT = 0
                      then snd (xnpod_fire_callouts pod7 (tdeleteq pod7) thread)
                      else pod7)
            else Inr pod7)"

subsection \<open>xnpod_wait_thread_period\<close>

text \<open>
  The end of \<^verbatim>\<open>xnpod_wait_thread_period\<close>, from the overrun query on. The result is
  the return code, the value stored through \<^verbatim>\<open>overruns_r\<close> (\<open>None\<close> when nothing is
  stored) and the state; \<open>overruns_r\<close> tells whether the pointer is non-null.
\<close>

definition wait_period_overruns ::
  "xnenv \<Rightarrow> nucleus \<Rightarrow> tid \<Rightarrow> xnticks_t \<Rightarrow> bool \<Rightarrow> int \<times> 32 word option \<times> nucleus" where
  "wait_period_overruns env pod thread now overruns_r =
     (let (overruns, timer) = xntimer_get_overruns env (ptimer (tcb pod thread)) now;
          pod1 = upd_thread pod thread (\<lambda>t. t\<lparr>ptimer := timer\<rparr>)
      in (if overruns \<noteq> 0 then - ETIMEDOUT else 0,
          if overruns_r then Some overruns else None,
          pod1))"

definition xnpod_wait_thread_period ::
  "xnenv \<Rightarrow> xnconfig \<Rightarrow> nucleus \<Rightarrow> bool \<Rightarrow> fault + (int \<times> 32 word option \<times> nucleus)" where
  "xnpod_wait_thread_period env cfg pod overruns_r =
     (let thread = xnpod_current_thread pod in
      if \<not> xntimer_running_p (ptimer (tcb pod thread)) then Inr (- EWOULDBLOCK, None, pod)
      else
        let now = rawclock pod in
        if sint (now - pexpect (ptimer (tcb pod thread))) < 0 then
          (case xnpod_suspend_thread env cfg pod thread XNDELAY XN_INFINITE XN_RELATIVE None of
             Inl f \<Rightarrow> Inl f
           | Inr pod1 \<Rightarrow>
               if xnthread_test_info pod1 thread XNBREAK \<noteq> 0 then Inr (- EINTR, None, pod1)
               else Inr (wait_period_overruns env pod1 thread (rawclock pod1) overruns_r))
        else Inr (wait_period_overruns env pod thread now overruns_r))"

section \<open>Sample states\<close>

text \<open>
  A one-CPU pod after initialisation, used to run the services on concrete inputs: the
  root thread at address 0 is current on slot 0, every other control block is a dormant,
  never started kernel thread, and the collaborators do nothing (the allocator always
  succeeds, the timer reports no overrun).
\<close>

definition timer_idle :: xntimer_t where
  "timer_idle = \<lparr>running = False, tsched = 0, date = 0, interval = 0, pexpect = 0\<rparr>"

definition thread_dormant :: xnthread_t where
  "thread_dormant =
     \<lparr>state = XNDORMANT, info = 0, wchan = None, bprio = 1, cprio = 1, sched = 0,
      affinity = {0}, imask = 0, imode = 0, entry = 0, cookie = 0, rrperiod = 0,
      rrcredit = 0, schedlck = 0, rtimer = timer_idle, ptimer = timer_idle,
      user_task = False\<rparr>"

definition sched_idle :: xnsched_t where
  "sched_idle = \<lparr>curr = 0, resched = {}, status = 0, fpuholder = None, runq = {}\<rparr>"

definition pod_boot :: nucleus where
  "pod_boot =
     \<lparr>threadq = [0, 1, 2], threadq_rev = 3, tstartq = [], tswitchq = [], tdeleteq = [],
      sched_slot = (\<lambda>c. sched_idle), nkaffinity = {0, 1}, cpu_online_map = {0},
      current_cpu = 0, rawclock = 100, synch_status = (\<lambda>w. 0),
      tcb = (\<lambda>a. thread_dormant)(0 := thread_dormant\<lparr>state := XNROOT OR XNSTARTED\<rparr>)\<rparr>"

definition env_quiet :: xnenv where
  "env_quiet =
     \<lparr>xnpod_schedule = (\<lambda>pod. pod), xnshadow_start = (\<lambda>thread pod. pod),
      xnsynch_release_all_ownerships = (\<lambda>thread pod. pod),
      xnsynch_renice_sleeper = (\<lambda>thread pod. pod),
      xntimer_get_overruns = (\<lambda>timer now. (0, timer)),
      xnmalloc = (\<lambda>pod. True)\<rparr>"

definition cfg_debug :: xnconfig where
  "cfg_debug =
     \<lparr>XENO_DEBUG_NUCLEUS = True, CONFIG_XENO_OPT_PERVASIVE = True, CONFIG_SMP = False,
      CONFIG_XENO_OPT_ISHIELD = False, CONFIG_XENO_HW_UNLOCKED_SWITCH = False,
      CONFIG_XENO_HW_FPU = True\<rparr>"

text \<open>The pod after two start hooks were registered: routine 1 first, then routine 2.\<close>

definition pod_two_hooks :: nucleus where
  "pod_two_hooks =
     snd (xnpod_add_hook env_quiet
            (snd (xnpod_add_hook env_quiet pod_boot XNHOOK_THREAD_START 1))
            XNHOOK_THREAD_START 2)"

text \<open>Thread 1 started and linked to the ready queue of slot 0.\<close>

definition pod_ready :: nucleus where
  "pod_ready =
     upd_sched (upd_thread pod_boot 1 (\<lambda>t. t\<lparr>state := XNSTARTED OR XNREADY\<rparr>)) 0
       (\<lambda>s. s\<lparr>runq := {1}\<rparr>)"

text \<open>
  Thread 1 started and current on slot 0, with its periodic timer running and the next
  release point expected at tick 150 (the clock reads 100).
\<close>

definition pod_periodic :: nucleus where
  "pod_periodic =
     (upd_thread pod_boot 1
        (\<lambda>t. t\<lparr>state := XNSTARTED, ptimer := (ptimer t)\<lparr>running := True, pexpect := 150\<rparr>\<rparr>))
       \<lparr>sched_slot := (\<lambda>c. sched_idle\<lparr>curr := 1\<rparr>)\<rparr>"

text \<open>Collaborators for the periodic wait: while thread 1 sleeps another context
  unblocks it; the periodic timer reports two overruns.\<close>

definition env_unblocked :: xnenv where
  "env_unblocked = env_quiet\<lparr>xnpod_schedule := (\<lambda>pod. snd (xnpod_unblock_thread pod 1))\<rparr>"

definition env_overrun :: xnenv where
  "env_overrun = env_quiet\<lparr>xntimer_get_overruns := (\<lambda>timer now. (2, timer))\<rparr>"

text \<open>The pod after routine 1 was registered a second time as a start hook.\<close>

definition pod_three_hooks :: nucleus where
  "pod_three_hooks = snd (xnpod_add_hook env_quiet pod_two_hooks XNHOOK_THREAD_START 1)"

section \<open>The invariant on thread states\<close>

text \<open>
  The state of a thread is consistent when \<^verbatim>\<open>XNREADY\<close> excludes every blocking bit
  and \<^verbatim>\<open>XNPEND\<close> comes with a wait channel (testable properties 2 and 3 of the
  spec); the second part is what \<^verbatim>\<open>xnpod_resume_thread\<close> relies on when a delay is
  lifted from a pending thread. The pod is consistent when every control block is.
\<close>

definition thread_inv :: "xnthread_t \<Rightarrow> bool" where
  "thread_inv t =
     ((state t AND XNREADY \<noteq> 0 \<longrightarrow> state t AND XNTHREAD_BLOCK_BITS = 0) \<and>
      (state t AND XNPEND \<noteq> 0 \<longrightarrow> wchan t \<noteq> None))"

definition pod_inv :: "nucleus \<Rightarrow> bool" where
  "pod_inv pod = (\<forall>t. thread_inv (tcb pod t))"

text \<open>A thread that is not linked to the ready queue and meets the invariant.\<close>

definition unlinked_inv :: "xnthread_t \<Rightarrow> bool" where
  "unlinked_inv t = (thread_inv t \<and> state t AND XNREADY = 0)"

text \<open>The collaborators keep the pod consistent: the rescheduling procedure, the
  shadow start and the release of the synchronisation objects a thread owns.\<close>

definition env_inv :: "xnenv \<Rightarrow> bool" where
  "env_inv env =
     ((\<forall>pod. pod_inv pod \<longrightarrow> pod_inv (xnpod_schedule env pod)) \<and>
      (\<forall>thread pod. pod_inv pod \<longrightarrow> pod_inv (xnshadow_start env thread pod)) \<and>
      (\<forall>thread pod. pod_inv pod \<longrightarrow> pod_inv (xnsynch_release_all_ownerships env thread pod)))"

text \<open>
  An admissible suspension, after the comment of \<^verbatim>\<open>xnpod_suspend_thread\<close>: the mask
  holds suspensive conditions only, and \<^verbatim>\<open>XNPEND\<close> is asked for with the wait
  channel the thread pends on (passed in, or already attached).
\<close>

definition suspend_admissible :: "nucleus \<Rightarrow> tid \<Rightarrow> xnflags_t \<Rightarrow> nat option \<Rightarrow> bool" where
  "suspend_admissible pod thread msk wchn =
     (msk AND NOT XNTHREAD_BLOCK_BITS = 0 \<and>
      (msk AND XNPEND \<noteq> 0 \<longrightarrow> wchn \<noteq> None \<or> wchan (tcb pod thread) \<noteq> None))"

text \<open>
  Sequences of calls to the five services that change the blocking state of a thread; a
  sequence stops at the first call halted by \<^verbatim>\<open>xnpod_fatal\<close>. A sequence is admissible
  when each suspension in it is, in the state it is issued in.
\<close>

datatype pod_call =
    Suspend tid xnflags_t xnticks_t xntmode_t "nat option"
  | Resume tid xnflags_t
  | Unblock tid
  | Start tid xnflags_t int xnarch_cpumask_t nat nat
  | Delete tid

fun run_call :: "xnenv \<Rightarrow> xnconfig \<Rightarrow> nucleus \<Rightarrow> pod_call \<Rightarrow> fault + nucleus" where
  "run_call env cfg pod (Suspend thread msk timeout timeout_mode wchn) =
     xnpod_suspend_thread env cfg pod thread msk timeout timeout_mode wchn"
| "run_call env cfg pod (Resume thread msk) = Inr (xnpod_resume_thread pod thread msk)"
| "run_call env cfg pod (Unblock thread) = Inr (snd (xnpod_unblock_thread pod thread))"
| "run_call env cfg pod (Start thread mode imsk affin entr cook) =
     Inr (snd (xnpod_start_thread env cfg pod thread mode imsk affin entr cook))"
| "run_call env cfg pod (Delete thread) = xnpod_delete_thread env cfg pod thread"

fun call_admissible :: "nucleus \<Rightarrow> pod_call \<Rightarrow> bool" where
  "call_admissible pod (Suspend thread msk timeout timeout_mode wchn) =
     suspend_admissible pod thread msk wchn"
| "call_admissible pod c = True"

fun run_calls :: "xnenv \<Rightarrow> xnconfig \<Rightarrow> nucleus \<Rightarrow> pod_call list \<Rightarrow> fault + nucleus" where
  "run_calls env cfg pod [] = Inr pod"
| "run_calls env cfg pod (c # cs) =
     (case run_call env cfg pod c of
        Inl f \<Rightarrow> Inl f
      | Inr pod' \<Rightarrow> run_calls env cfg pod' cs)"

fun calls_admissible :: "xnenv \<Rightarrow> xnconfig \<Rightarrow> nucleus \<Rightarrow> pod_call list \<Rightarrow> bool" where
  "calls_admissible env cfg pod [] = True"
| "calls_admissible env cfg pod (c # cs) =
     (call_admissible pod c \<and>
      (case run_call env cfg pod c of
         Inl f \<Rightarrow> True
       | Inr pod' \<Rightarrow> calls_admissible env cfg pod' cs))"

section \<open>Properties\<close>

subsection \<open>Definition bundles and bit arithmetic\<close>

lemmas state_bits = XNSUSP_def XNPEND_def XNDELAY_def XNREADY_def XNDORMANT_def XNZOMBIE_def
  XNRESTART_def XNSTARTED_def XNRELAX_def XNMIGRATE_def XNBOOST_def XNLOCK_def XNRRB_def
  XNASDI_def XNSHIELD_def XNRPIOFF_def XNFPU_def XNSHADOW_def XNROOT_def
  XNTHREAD_BLOCK_BITS_def XNTHREAD_MODE_BITS_def

lemmas info_bits = XNTIMEO_def XNRMID_def XNBREAK_def XNKICKED_def XNWAKEN_def XNROBBED_def
  XNPRIOSET_def

lemmas thread_macros = xnthread_test_state_def xnthread_set_state_def xnthread_clear_state_def
  xnthread_test_info_def xnthread_set_info_def xnthread_clear_info_def upd_thread_def

lemma word_bits_eq: "(a = b) = (\<forall>n<LENGTH('a). bit a n = bit b n)" for a :: "'a::len word"
  by (auto intro: bit_word_eqI)

lemmas sched_prims = xnsched_enqueue_def xnsched_dequeue_def xnsched_putback_def
  xnsched_set_resched_def upd_sched_def

lemmas resume_defs = xnpod_resume_thread_def resume_clear_wchan_def resume_enqueue_def
  xnsynch_forget_sleeper_def xntimer_stop_def

lemmas suspend_defs = xnpod_suspend_thread_def suspend_block_def
lemmas timer_defs = xntimer_start_def xntimer_stop_def xntimer_destroy_def xntimer_set_sched_def
  xntimer_running_p_def XN_INFINITE_def

lemmas sample_defs = pod_boot_def thread_dormant_def sched_idle_def timer_idle_def
  env_quiet_def cfg_debug_def


subsection \<open>Hook queues\<close>


lemmas hook_types = XNHOOK_THREAD_START_def XNHOOK_THREAD_SWITCH_def XNHOOK_THREAD_DELETE_def
lemmas errnos = EINTR_def EWOULDBLOCK_def ENOMEM_def EBUSY_def EINVAL_def ETIMEDOUT_def

lemma remove_hook_loop_None: "(remove_hook_loop q r = None) = (r \<notin> set q)"
  by (induction q) auto

lemma remove_hook_loop_Some:
  "remove_hook_loop q r = Some q' \<Longrightarrow>
     \<exists>before after. q = before @ r # after \<and> r \<notin> set before \<and> q' = before @ after"
proof (induction q arbitrary: q')
  case Nil
  then show ?case by simp
next
  case (Cons h rest)
  show ?case
  proof (cases "h = r")
    case True
    with Cons.prems have "q' = rest" by simp
    with True have "h # rest = [] @ r # rest \<and> r \<notin> set [] \<and> q' = [] @ rest" by simp
    then show ?thesis by blast
  next
    case False
    with Cons.prems obtain q1 where q1: "remove_hook_loop rest r = Some q1" and q': "q' = h # q1"
      by auto
    from Cons.IH[OF q1] obtain before after
      where "rest = before @ r # after" "r \<notin> set before" "q1 = before @ after" by blast
    with False q' have "h # rest = (h # before) @ r # after \<and> r \<notin> set (h # before) \<and> q' = (h # before) @ after"
      by simp
    then show ?thesis by blast
  qed
qed

lemma get_set_hookq: "get_hookq (set_hookq pod h q) h' = (if h' = h then q else get_hookq pod h')"
  by (cases h; cases h') simp_all

text \<open>
  Claim C10. \<^verbatim>\<open>xnpod_remove_hook\<close> returns \<^verbatim>\<open>-EINVAL\<close> for an unknown hook
  type, and also when the routine is not registered in the queue of a valid type; in
  both cases the state, hence each of the three hook queues, is unchanged. On success it
  returns 0 and unlinks exactly the first hook holding the routine, leaving the two other
  queues as they were.
\<close>

theorem remove_hook_result:
  "(type \<notin> {XNHOOK_THREAD_START, XNHOOK_THREAD_SWITCH, XNHOOK_THREAD_DELETE} \<longrightarrow>
      xnpod_remove_hook pod type routine = (- EINVAL, pod)) \<and>
   (\<forall>hookq. hookq_of_type type = Some hookq \<and> routine \<notin> set (get_hookq pod hookq) \<longrightarrow>
      xnpod_remove_hook pod type routine = (- EINVAL, pod)) \<and>
   (\<forall>hookq. hookq_of_type type = Some hookq \<and> routine \<in> set (get_hookq pod hookq) \<longrightarrow>
      (\<exists>before after.
         get_hookq pod hookq = before @ routine # after \<and> routine \<notin> set before \<and>
         xnpod_remove_hook pod type routine = (0, set_hookq pod hookq (before @ after)) \<and>
         (\<forall>h. h \<noteq> hookq \<longrightarrow>
            get_hookq (set_hookq pod hookq (before @ after)) h = get_hookq pod h)))"
proof (intro conjI allI impI)
  assume "type \<notin> {XNHOOK_THREAD_START, XNHOOK_THREAD_SWITCH, XNHOOK_THREAD_DELETE}"
  then have "hookq_of_type type = None" by (simp add: hookq_of_type_def)
  then show "xnpod_remove_hook pod type routine = (- EINVAL, pod)"
    by (simp add: xnpod_remove_hook_def)
next
  fix hookq
  assume "hookq_of_type type = Some hookq \<and> routine \<notin> set (get_hookq pod hookq)"
  then have "hookq_of_type type = Some hookq"
    and "remove_hook_loop (get_hookq pod hookq) routine = None"
    by (simp_all add: remove_hook_loop_None)
  then show "xnpod_remove_hook pod type routine = (- EINVAL, pod)"
    by (simp add: xnpod_remove_hook_def)
next
  fix hookq
  assume a: "hookq_of_type type = Some hookq \<and> routine \<in> set (get_hookq pod hookq)"
  then obtain q' where q': "remove_hook_loop (get_hookq pod hookq) routine = Some q'"
    using remove_hook_loop_None[of "get_hookq pod hookq" routine] by auto
  from remove_hook_loop_Some[OF q'] obtain before after where
    ba: "get_hookq pod hookq = before @ routine # after" "routine \<notin> set before" "q' = before @ after"
    by blast
  have "xnpod_remove_hook pod type routine = (0, set_hookq pod hookq (before @ after))"
    using a q' ba(3) by (simp add: xnpod_remove_hook_def)
  with ba show "\<exists>before after.
         get_hookq pod hookq = before @ routine # after \<and> routine \<notin> set before \<and>
         xnpod_remove_hook pod type routine = (0, set_hookq pod hookq (before @ after)) \<and>
         (\<forall>h. h \<noteq> hookq \<longrightarrow>
            get_hookq (set_hookq pod hookq (before @ after)) h = get_hookq pod h)"
    by (auto simp: get_set_hookq)
qed

theorem remove_hook_result_witness:
  "7 \<notin> {XNHOOK_THREAD_START, XNHOOK_THREAD_SWITCH, XNHOOK_THREAD_DELETE} \<and>
   xnpod_remove_hook pod_three_hooks 7 1 = (- EINVAL, pod_three_hooks) \<and>
   hookq_of_type XNHOOK_THREAD_DELETE = Some TDELETEQ \<and>
   1 \<notin> set (get_hookq pod_three_hooks TDELETEQ) \<and>
   xnpod_remove_hook pod_three_hooks XNHOOK_THREAD_DELETE 1 = (- EINVAL, pod_three_hooks) \<and>
   hookq_of_type XNHOOK_THREAD_START = Some TSTARTQ \<and>
   get_hookq pod_three_hooks TSTARTQ = [1, 2, 1] \<and>
   xnpod_remove_hook pod_three_hooks XNHOOK_THREAD_START 1 =
     (0, pod_three_hooks\<lparr>tstartq := [2, 1]\<rparr>)"
proof -
  have q: "tstartq pod_three_hooks = [1, 2, 1]" "tdeleteq pod_three_hooks = []"
    by (simp_all add: pod_three_hooks_def pod_two_hooks_def xnpod_add_hook_def hookq_of_type_def
        hook_types env_quiet_def prependq_def pod_boot_def)
  have t: "7 \<notin> {XNHOOK_THREAD_START, XNHOOK_THREAD_SWITCH, XNHOOK_THREAD_DELETE}"
    "hookq_of_type XNHOOK_THREAD_DELETE = Some TDELETEQ"
    "hookq_of_type XNHOOK_THREAD_START = Some TSTARTQ"
    by (simp_all add: hookq_of_type_def hook_types)
  have a: "xnpod_remove_hook pod_three_hooks 7 1 = (- EINVAL, pod_three_hooks)"
    using t(1) remove_hook_result[of 7 pod_three_hooks 1] by blast
  have b: "xnpod_remove_hook pod_three_hooks XNHOOK_THREAD_DELETE 1 = (- EINVAL, pod_three_hooks)"
    using t(2) q(2) remove_hook_result[of XNHOOK_THREAD_DELETE pod_three_hooks 1] by simp
  have c: "xnpod_remove_hook pod_three_hooks XNHOOK_THREAD_START 1 =
     (0, pod_three_hooks\<lparr>tstartq := [2, 1]\<rparr>)"
    by (simp add: xnpod_remove_hook_def t q)
  from t q a b c show ?thesis by simp
qed

text \<open>
  Claim C2. The claim expects hooks of one type to run in registration order. The code
  links each new hook at the head of its queue and walks the queue from the head:
  after routine 1 then routine 2 were registered as start hooks, firing the start hooks
  for thread 5 calls routine 2 first and routine 1 last.
\<close>

theorem hooks_fire_last_registered_first:
  "fst (xnpod_add_hook env_quiet pod_boot XNHOOK_THREAD_START 1) = 0 \<and>
   fst (xnpod_add_hook env_quiet (snd (xnpod_add_hook env_quiet pod_boot XNHOOK_THREAD_START 1))
          XNHOOK_THREAD_START 2) = 0 \<and>
   fst (xnpod_fire_callouts pod_two_hooks (tstartq pod_two_hooks) 5) = [(2, 5), (1, 5)]"
  by (simp add: pod_two_hooks_def xnpod_add_hook_def hookq_of_type_def
      hook_types env_quiet_def prependq_def pod_boot_def xnpod_fire_callouts_def Let_def)

text \<open>
  In general: when the allocator never fails, registering the routines \<open>rs\<close> one
  after the other leaves them in the queue in reverse order ahead of the older hooks, and
  firing calls them in that reverse order.
\<close>

lemma add_hooks_queue:
  assumes "\<forall>p. xnmalloc env p" and "hookq_of_type type = Some hookq"
  shows "get_hookq (foldl (\<lambda>p r. snd (xnpod_add_hook env p type r)) pod rs) hookq =
         rev rs @ get_hookq pod hookq"
proof (induction rs arbitrary: pod)
  case Nil
  then show ?case by simp
next
  case (Cons r rs)
  have "get_hookq (snd (xnpod_add_hook env pod type r)) hookq = r # get_hookq pod hookq"
    using assms by (simp add: xnpod_add_hook_def prependq_def get_set_hookq)
  with Cons.IH[of "snd (xnpod_add_hook env pod type r)"] show ?case by simp
qed

lemma fire_loop_map: "fire_loop q thread = map (\<lambda>r. (r, thread)) q"
  by (induction q) simp_all

lemma hooks_fire_in_reverse_order:
  assumes "\<forall>p. xnmalloc env p" and "hookq_of_type type = Some hookq"
    and "get_hookq pod hookq = []"
  shows "fst (xnpod_fire_callouts pod'
                (get_hookq (foldl (\<lambda>p r. snd (xnpod_add_hook env p type r)) pod rs) hookq)
                thread) =
         map (\<lambda>r. (r, thread)) (rev rs)"
  using assms by (simp add: xnpod_fire_callouts_def Let_def add_hooks_queue fire_loop_map)

subsection \<open>Mode change\<close>

lemma mode_frame:
  "((s AND NOT (c AND m)) OR (t AND m)) AND NOT m = s AND NOT m" for s :: "'a::len word"
  by (auto simp add: word_bits_eq bit_simps)

lemma or_frame: "k AND NOT m = 0 \<Longrightarrow> (s OR k) AND NOT m = s AND NOT m" for s :: "'a::len word"
  by (auto simp add: word_bits_eq bit_simps)

lemma and_and_same: "(a AND m) AND m = a AND m" for a :: "'a::len word"
  by (auto simp add: word_bits_eq bit_simps)

lemma andnot_and_commute: "((a AND m) AND NOT k) AND m = (a AND NOT k) AND m" for a :: "'a::len word"
  by (auto simp add: word_bits_eq bit_simps)

lemma XNLOCK_is_mode: "XNLOCK AND NOT XNTHREAD_MODE_BITS = 0"
  by (simp add: state_bits)

text \<open>
  Claim C9. \<^verbatim>\<open>xnpod_set_thread_mode\<close> returns the mode bits the thread had on entry
  (its state restricted to \<^verbatim>\<open>XNTHREAD_MODE_BITS\<close>); the bits of the thread's state
  outside the mode bits are the same after the call; and the bits of either mask outside
  the mode bits are ignored: the call with both masks restricted to the mode bits gives
  the same result and the same state.
\<close>

theorem set_thread_mode_result:
  "fst (xnpod_set_thread_mode cfg pod thread clrmask setmask) =
     state (tcb pod thread) AND XNTHREAD_MODE_BITS \<and>
   state (tcb (snd (xnpod_set_thread_mode cfg pod thread clrmask setmask)) thread)
       AND NOT XNTHREAD_MODE_BITS =
     state (tcb pod thread) AND NOT XNTHREAD_MODE_BITS \<and>
   xnpod_set_thread_mode cfg pod thread
       (clrmask AND XNTHREAD_MODE_BITS) (setmask AND XNTHREAD_MODE_BITS) =
     xnpod_set_thread_mode cfg pod thread clrmask setmask"
proof (intro conjI)
  show "fst (xnpod_set_thread_mode cfg pod thread clrmask setmask) =
     state (tcb pod thread) AND XNTHREAD_MODE_BITS"
    by (simp add: xnpod_set_thread_mode_def Let_def)
  show "state (tcb (snd (xnpod_set_thread_mode cfg pod thread clrmask setmask)) thread)
       AND NOT XNTHREAD_MODE_BITS =
     state (tcb pod thread) AND NOT XNTHREAD_MODE_BITS"
    by (simp add: xnpod_set_thread_mode_def Let_def xnpod_lock_sched_def xnpod_current_thread_def
        thread_macros mode_frame or_frame[OF XNLOCK_is_mode] del: bit.de_Morgan_conj bit.de_Morgan_disj)
  show "xnpod_set_thread_mode cfg pod thread
       (clrmask AND XNTHREAD_MODE_BITS) (setmask AND XNTHREAD_MODE_BITS) =
     xnpod_set_thread_mode cfg pod thread clrmask setmask"
    by (simp add: xnpod_set_thread_mode_def and_and_same andnot_and_commute)
qed


theorem set_thread_mode_result_witness:
  "fst (xnpod_set_thread_mode cfg_debug pod_boot 1 (XNDORMANT OR XNLOCK) (XNRRB OR XNZOMBIE)) = 0 \<and>
   state (tcb (snd (xnpod_set_thread_mode cfg_debug pod_boot 1
                      (XNDORMANT OR XNLOCK) (XNRRB OR XNZOMBIE))) 1) = XNDORMANT OR XNRRB \<and>
   xnpod_set_thread_mode cfg_debug pod_boot 1 XNLOCK XNRRB =
     xnpod_set_thread_mode cfg_debug pod_boot 1 (XNDORMANT OR XNLOCK) (XNRRB OR XNZOMBIE)"
  using set_thread_mode_result[of cfg_debug pod_boot 1 "XNDORMANT OR XNLOCK" "XNRRB OR XNZOMBIE"]
  by (simp add: xnpod_set_thread_mode_def Let_def xnpod_current_thread_def thread_macros
      pod_boot_def thread_dormant_def sched_idle_def cfg_debug_def state_bits)

subsection \<open>Priority change\<close>

text \<open>
  Claim C7. \<^verbatim>\<open>xnpod_renice_thread\<close> always stores the new priority in \<open>bprio\<close>;
  it stores it in \<open>cprio\<close> as well when the thread has no \<^verbatim>\<open>XNBOOST\<close> or the new
  priority is above the old current one, and leaves \<open>cprio\<close> as it was otherwise.
  The synchronisation layer's \<^verbatim>\<open>xnsynch_renice_sleeper\<close> is taken not to write the
  two priority fields of the reniced thread.
\<close>

theorem renice_thread_priorities:
  assumes "\<forall>p. bprio (tcb (xnsynch_renice_sleeper env thread p) thread) = bprio (tcb p thread) \<and>
               cprio (tcb (xnsynch_renice_sleeper env thread p) thread) = cprio (tcb p thread)"
  shows "bprio (tcb (xnpod_renice_thread env cfg pod thread prio) thread) = prio \<and>
         cprio (tcb (xnpod_renice_thread env cfg pod thread prio) thread) =
           (if state (tcb pod thread) AND XNBOOST = 0 \<or> prio > cprio (tcb pod thread)
            then prio else cprio (tcb pod thread))"
  using assms
  by (simp add: xnpod_renice_thread_def xnpod_renice_thread_inner_def Let_def thread_macros
      xnsched_putback_def xnsched_enqueue_def upd_sched_def split: option.splits)

theorem renice_thread_priorities_witness:
  "(\<forall>p. bprio (tcb (xnsynch_renice_sleeper env_quiet 1 p) 1) = bprio (tcb p 1) \<and>
        cprio (tcb (xnsynch_renice_sleeper env_quiet 1 p) 1) = cprio (tcb p 1)) \<and>
   bprio (tcb (xnpod_renice_thread env_quiet cfg_debug pod_boot 1 7) 1) = 7 \<and>
   cprio (tcb (xnpod_renice_thread env_quiet cfg_debug pod_boot 1 7) 1) = 7 \<and>
   bprio (tcb (xnpod_renice_thread env_quiet cfg_debug
                 (upd_thread pod_boot 1 (\<lambda>t. t\<lparr>state := XNDORMANT OR XNBOOST, cprio := 9\<rparr>)) 1 7) 1) = 7 \<and>
   cprio (tcb (xnpod_renice_thread env_quiet cfg_debug
                 (upd_thread pod_boot 1 (\<lambda>t. t\<lparr>state := XNDORMANT OR XNBOOST, cprio := 9\<rparr>)) 1 7) 1) = 9"
  using renice_thread_priorities[of env_quiet 1 cfg_debug pod_boot 7]
    renice_thread_priorities[of env_quiet 1 cfg_debug
      "upd_thread pod_boot 1 (\<lambda>t. t\<lparr>state := XNDORMANT OR XNBOOST, cprio := 9\<rparr>)" 7]
  by (simp add: env_quiet_def upd_thread_def pod_boot_def thread_dormant_def state_bits)

subsection \<open>Unblocking\<close>

lemma info_resume_enqueue [simp]:
  "info (tcb (resume_enqueue pod thread sch) t) = info (tcb pod t)"
  by (simp add: resume_enqueue_def xnsched_set_resched_def xnsched_enqueue_def upd_sched_def
      thread_macros)

lemma info_forget_sleeper [simp]:
  "info (tcb (xnsynch_forget_sleeper pod thread) t) = info (tcb pod t)"
  by (simp add: xnsynch_forget_sleeper_def thread_macros)

lemma info_resume_clear_wchan [simp]:
  "info (tcb (resume_clear_wchan pod thread sch msk) t) = info (tcb pod t)"
  by (simp add: resume_clear_wchan_def)

lemma info_clear_state [simp]:
  "info (tcb (xnthread_clear_state pod thread bits) t) = info (tcb pod t)"
  by (simp add: thread_macros)

lemma info_stop_rtimer [simp]:
  "info (tcb (upd_thread pod thread (\<lambda>t. t\<lparr>rtimer := x t\<rparr>)) t) = info (tcb pod t)"
  by (simp add: thread_macros)

lemma info_dequeue [simp]:
  "info (tcb (xnsched_dequeue pod thread) t) = info (tcb pod t)"
  by (simp add: xnsched_dequeue_def upd_sched_def)

lemma info_resume_thread:
  "info (tcb (xnpod_resume_thread pod thread msk) t) = info (tcb pod t)"
  by (simp add: xnpod_resume_thread_def Let_def)

text \<open>
  Claim C4. \<^verbatim>\<open>xnpod_unblock_thread\<close> returns non-zero exactly when the thread has
  \<^verbatim>\<open>XNDELAY\<close> or \<^verbatim>\<open>XNPEND\<close> on entry; with \<^verbatim>\<open>XNDELAY\<close> it resumes the delay,
  otherwise with \<^verbatim>\<open>XNPEND\<close> the pend; the information mask gets \<^verbatim>\<open>XNBREAK\<close> added
  when the result is non-zero and is unchanged when it is zero; with neither bit the
  call returns 0 and changes nothing.
\<close>

theorem unblock_thread_result:
  "(fst (xnpod_unblock_thread pod thread) \<noteq> 0) =
     (state (tcb pod thread) AND (XNDELAY OR XNPEND) \<noteq> 0) \<and>
   (state (tcb pod thread) AND XNDELAY \<noteq> 0 \<longrightarrow>
      snd (xnpod_unblock_thread pod thread) =
        xnthread_set_info (xnpod_resume_thread pod thread XNDELAY) thread XNBREAK) \<and>
   (state (tcb pod thread) AND XNDELAY = 0 \<and> state (tcb pod thread) AND XNPEND \<noteq> 0 \<longrightarrow>
      snd (xnpod_unblock_thread pod thread) =
        xnthread_set_info (xnpod_resume_thread pod thread XNPEND) thread XNBREAK) \<and>
   info (tcb (snd (xnpod_unblock_thread pod thread)) thread) =
     (if fst (xnpod_unblock_thread pod thread) \<noteq> 0
      then info (tcb pod thread) OR XNBREAK else info (tcb pod thread)) \<and>
   (state (tcb pod thread) AND XNDELAY = 0 \<and> state (tcb pod thread) AND XNPEND = 0 \<longrightarrow>
      xnpod_unblock_thread pod thread = (0, pod))"
  by (simp add: xnpod_unblock_thread_def xnthread_test_state_def xnthread_set_info_def
      upd_thread_def info_resume_thread bit.conj_disj_distrib or_eq_0_iff)

theorem unblock_thread_result_witness:
  "state (tcb (upd_thread pod_boot 1 (\<lambda>t. t\<lparr>state := XNSTARTED OR XNDELAY\<rparr>)) 1)
      AND (XNDELAY OR XNPEND) \<noteq> 0 \<and>
   fst (xnpod_unblock_thread (upd_thread pod_boot 1 (\<lambda>t. t\<lparr>state := XNSTARTED OR XNDELAY\<rparr>)) 1) = 1 \<and>
   info (tcb (snd (xnpod_unblock_thread
                     (upd_thread pod_boot 1 (\<lambda>t. t\<lparr>state := XNSTARTED OR XNDELAY\<rparr>)) 1)) 1) = XNBREAK \<and>
   state (tcb (snd (xnpod_unblock_thread
                     (upd_thread pod_boot 1 (\<lambda>t. t\<lparr>state := XNSTARTED OR XNDELAY\<rparr>)) 1)) 1) =
     XNSTARTED OR XNREADY \<and>
   state (tcb pod_boot 2) AND XNDELAY = 0 \<and> state (tcb pod_boot 2) AND XNPEND = 0 \<and>
   xnpod_unblock_thread pod_boot 2 = (0, pod_boot)"
  using unblock_thread_result[of "upd_thread pod_boot 1 (\<lambda>t. t\<lparr>state := XNSTARTED OR XNDELAY\<rparr>)" 1]
    unblock_thread_result[of pod_boot 2]
  by (simp add: xnpod_unblock_thread_def resume_defs thread_macros sched_prims sample_defs
      state_bits info_bits Let_def)

subsection \<open>Deleting a zombie\<close>

text \<open>
  Claim C5. \<^verbatim>\<open>xnpod_delete_thread\<close> on a thread that already has \<^verbatim>\<open>XNZOMBIE\<close>
  returns at once and leaves the whole state (the thread, the thread queue, the
  scheduler slots) unchanged. The debug build halts on the root thread before that test,
  so the root thread is excluded there.
\<close>

theorem delete_zombie_noop:
  assumes "xnthread_test_state pod thread XNZOMBIE \<noteq> 0"
    and "\<not> (XENO_DEBUG_NUCLEUS cfg \<and> xnthread_test_state pod thread XNROOT \<noteq> 0)"
  shows "xnpod_delete_thread env cfg pod thread = Inr pod"
  using assms by (simp add: xnpod_delete_thread_def)

theorem delete_zombie_noop_witness:
  "xnthread_test_state (upd_thread pod_boot 1 (\<lambda>t. t\<lparr>state := XNSTARTED OR XNZOMBIE\<rparr>)) 1 XNZOMBIE \<noteq> 0 \<and>
   \<not> (XENO_DEBUG_NUCLEUS cfg_debug \<and>
      xnthread_test_state (upd_thread pod_boot 1 (\<lambda>t. t\<lparr>state := XNSTARTED OR XNZOMBIE\<rparr>)) 1 XNROOT \<noteq> 0) \<and>
   xnpod_delete_thread env_quiet cfg_debug
       (upd_thread pod_boot 1 (\<lambda>t. t\<lparr>state := XNSTARTED OR XNZOMBIE\<rparr>)) 1 =
     Inr (upd_thread pod_boot 1 (\<lambda>t. t\<lparr>state := XNSTARTED OR XNZOMBIE\<rparr>))"
proof -
  have z: "xnthread_test_state (upd_thread pod_boot 1 (\<lambda>t. t\<lparr>state := XNSTARTED OR XNZOMBIE\<rparr>)) 1 XNZOMBIE \<noteq> 0"
    by (simp add: thread_macros sample_defs state_bits)
  have r: "\<not> (XENO_DEBUG_NUCLEUS cfg_debug \<and>
      xnthread_test_state (upd_thread pod_boot 1 (\<lambda>t. t\<lparr>state := XNSTARTED OR XNZOMBIE\<rparr>)) 1 XNROOT \<noteq> 0)"
    by (simp add: thread_macros sample_defs state_bits)
  from z r delete_zombie_noop[OF z r, of env_quiet] show ?thesis by blast
qed

subsection \<open>Starting a thread\<close>

text \<open>
  Claim C6, as stated, fails where its two conditions overlap: a thread that is dormant
  and already started, asked to start with an affinity that leaves no online CPU, gets
  \<^verbatim>\<open>-EINVAL\<close>, not \<^verbatim>\<open>-EBUSY\<close>, because the affinity is checked before
  \<^verbatim>\<open>XNSTARTED\<close>.
\<close>

theorem dormant_started_thread_gets_einval:
  "state (tcb (upd_thread pod_boot 1 (\<lambda>t. t\<lparr>state := XNDORMANT OR XNSTARTED\<rparr>)) 1) AND XNSTARTED \<noteq> 0 \<and>
   {5} \<inter> cpu_online_map pod_boot \<inter> nkaffinity pod_boot = {} \<and>
   fst (xnpod_start_thread env_quiet cfg_debug
          (upd_thread pod_boot 1 (\<lambda>t. t\<lparr>state := XNDORMANT OR XNSTARTED\<rparr>)) 1 0 0 {5} 0 0) = - EINVAL \<and>
   - EINVAL \<noteq> - EBUSY"
  by (simp add: xnpod_start_thread_def thread_macros sample_defs state_bits errnos Let_def)

text \<open>
  Claim C6, amended. \<^verbatim>\<open>xnpod_start_thread\<close> returns \<^verbatim>\<open>-EBUSY\<close> when the thread is
  not dormant; otherwise \<^verbatim>\<open>-EINVAL\<close> when the requested affinity has no CPU in
  common with the online map and \<^verbatim>\<open>nkaffinity\<close>; otherwise \<^verbatim>\<open>-EBUSY\<close> when the
  thread is already started; otherwise 0. In every failure case the state bits of the
  thread, the other control blocks and the scheduler slots are unchanged, so
  \<^verbatim>\<open>XNSTARTED\<close> is not set and \<^verbatim>\<open>XNDORMANT\<close> is not released.
\<close>

theorem start_thread_failures:
  "(state (tcb pod thread) AND XNDORMANT = 0 \<longrightarrow>
      xnpod_start_thread env cfg pod thread mode imsk affin entr cook = (- EBUSY, pod)) \<and>
   (state (tcb pod thread) AND XNDORMANT \<noteq> 0 \<and>
    affin \<inter> cpu_online_map pod \<inter> nkaffinity pod = {} \<longrightarrow>
      fst (xnpod_start_thread env cfg pod thread mode imsk affin entr cook) = - EINVAL) \<and>
   (state (tcb pod thread) AND XNDORMANT \<noteq> 0 \<and>
    affin \<inter> cpu_online_map pod \<inter> nkaffinity pod \<noteq> {} \<and>
    state (tcb pod thread) AND XNSTARTED \<noteq> 0 \<longrightarrow>
      fst (xnpod_start_thread env cfg pod thread mode imsk affin entr cook) = - EBUSY) \<and>
   (state (tcb pod thread) AND XNDORMANT \<noteq> 0 \<and>
    affin \<inter> cpu_online_map pod \<inter> nkaffinity pod \<noteq> {} \<and>
    state (tcb pod thread) AND XNSTARTED = 0 \<longrightarrow>
      fst (xnpod_start_thread env cfg pod thread mode imsk affin entr cook) = 0) \<and>
   (fst (xnpod_start_thread env cfg pod thread mode imsk affin entr cook) \<noteq> 0 \<longrightarrow>
      state (tcb (snd (xnpod_start_thread env cfg pod thread mode imsk affin entr cook)) thread) =
        state (tcb pod thread) \<and>
      (\<forall>t. t \<noteq> thread \<longrightarrow>
         tcb (snd (xnpod_start_thread env cfg pod thread mode imsk affin entr cook)) t = tcb pod t) \<and>
      sched_slot (snd (xnpod_start_thread env cfg pod thread mode imsk affin entr cook)) =
        sched_slot pod)"
proof -
  let ?r = "xnpod_start_thread env cfg pod thread mode imsk affin entr cook"
  let ?inter = "affin \<inter> cpu_online_map pod \<inter> nkaffinity pod"
  define pod1 where
    "pod1 = upd_thread pod thread (\<lambda>t. t\<lparr>affinity := affin \<inter> nkaffinity pod \<inter> cpu_online_map pod\<rparr>)"
  define pod2 where
    "pod2 = (if CONFIG_SMP cfg \<and> sched (tcb pod1 thread) \<notin> affinity (tcb pod1 thread)
             then upd_thread pod1 thread (\<lambda>t. t\<lparr>sched := xnarch_first_cpu (affinity t)\<rparr>)
             else pod1)"
  have aff1: "affinity (tcb pod1 thread) = ?inter"
    by (auto simp add: pod1_def upd_thread_def)
  have frame1: "state (tcb pod1 thread) = state (tcb pod thread) \<and>
      (\<forall>t. t \<noteq> thread \<longrightarrow> tcb pod1 t = tcb pod t) \<and> sched_slot pod1 = sched_slot pod"
    by (simp add: pod1_def upd_thread_def)
  have frame2: "state (tcb pod2 thread) = state (tcb pod thread) \<and>
      (\<forall>t. t \<noteq> thread \<longrightarrow> tcb pod2 t = tcb pod t) \<and> sched_slot pod2 = sched_slot pod"
    using frame1 by (simp add: pod2_def upd_thread_def)
  have a: "state (tcb pod thread) AND XNDORMANT = 0 \<Longrightarrow> ?r = (- EBUSY, pod)"
    by (simp add: xnpod_start_thread_def xnthread_test_state_def)
  have b: "state (tcb pod thread) AND XNDORMANT \<noteq> 0 \<Longrightarrow> ?inter = {} \<Longrightarrow> ?r = (- EINVAL, pod1)"
    unfolding xnpod_start_thread_def Let_def pod1_def[symmetric]
    by (simp add: xnthread_test_state_def aff1)
  have c: "state (tcb pod thread) AND XNDORMANT \<noteq> 0 \<Longrightarrow> ?inter \<noteq> {} \<Longrightarrow>
      state (tcb pod thread) AND XNSTARTED \<noteq> 0 \<Longrightarrow> ?r = (- EBUSY, pod2)"
    unfolding xnpod_start_thread_def Let_def pod1_def[symmetric] pod2_def[symmetric]
    by (simp add: xnthread_test_state_def aff1 frame2)
  have d: "state (tcb pod thread) AND XNDORMANT \<noteq> 0 \<Longrightarrow> ?inter \<noteq> {} \<Longrightarrow>
      state (tcb pod thread) AND XNSTARTED = 0 \<Longrightarrow> fst ?r = 0"
    unfolding xnpod_start_thread_def Let_def pod1_def[symmetric] pod2_def[symmetric]
    by (simp add: xnthread_test_state_def aff1 frame2)
  have e: "fst ?r \<noteq> 0 \<Longrightarrow>
      state (tcb (snd ?r) thread) = state (tcb pod thread) \<and>
      (\<forall>t. t \<noteq> thread \<longrightarrow> tcb (snd ?r) t = tcb pod t) \<and>
      sched_slot (snd ?r) = sched_slot pod"
  proof -
    assume nz: "fst ?r \<noteq> 0"
    show ?thesis
    proof (cases "state (tcb pod thread) AND XNDORMANT = 0")
      case True
      then show ?thesis by (simp add: a)
    next
      case dormant: False
      show ?thesis
      proof (cases "?inter = {}")
        case True
        with dormant frame1 show ?thesis by (simp add: b)
      next
        case nonempty: False
        show ?thesis
        proof (cases "state (tcb pod thread) AND XNSTARTED = 0")
          case True
          with dormant nonempty nz d show ?thesis by simp
        next
          case False
          with dormant nonempty frame2 show ?thesis by (simp add: c)
        qed
      qed
    qed
  qed
  from a b c d e show ?thesis by (simp add: errnos)
qed


theorem start_thread_failures_witness:
  "state (tcb (upd_thread pod_boot 1 (\<lambda>t. t\<lparr>state := XNSTARTED OR XNREADY\<rparr>)) 1) AND XNDORMANT = 0 \<and>
   xnpod_start_thread env_quiet cfg_debug
       (upd_thread pod_boot 1 (\<lambda>t. t\<lparr>state := XNSTARTED OR XNREADY\<rparr>)) 1 0 0 {0} 0 0 =
     (- EBUSY, upd_thread pod_boot 1 (\<lambda>t. t\<lparr>state := XNSTARTED OR XNREADY\<rparr>)) \<and>
   state (tcb pod_boot 2) AND XNDORMANT \<noteq> 0 \<and>
   {5} \<inter> cpu_online_map pod_boot \<inter> nkaffinity pod_boot = {} \<and>
   fst (xnpod_start_thread env_quiet cfg_debug pod_boot 2 0 0 {5} 0 0) = - EINVAL \<and>
   state (tcb (snd (xnpod_start_thread env_quiet cfg_debug pod_boot 2 0 0 {5} 0 0)) 2) = XNDORMANT \<and>
   {0} \<inter> cpu_online_map pod_boot \<inter> nkaffinity pod_boot \<noteq> {} \<and>
   state (tcb (upd_thread pod_boot 1 (\<lambda>t. t\<lparr>state := XNDORMANT OR XNSTARTED\<rparr>)) 1) AND XNSTARTED \<noteq> 0 \<and>
   fst (xnpod_start_thread env_quiet cfg_debug
          (upd_thread pod_boot 1 (\<lambda>t. t\<lparr>state := XNDORMANT OR XNSTARTED\<rparr>)) 1 0 0 {0} 0 0) = - EBUSY \<and>
   state (tcb pod_boot 2) AND XNSTARTED = 0 \<and>
   fst (xnpod_start_thread env_quiet cfg_debug pod_boot 2 0 0 {0} 0 0) = 0"
proof -
  let ?running = "upd_thread pod_boot 1 (\<lambda>t. t\<lparr>state := XNSTARTED OR XNREADY\<rparr>)"
  let ?stopped = "upd_thread pod_boot 1 (\<lambda>t. t\<lparr>state := XNDORMANT OR XNSTARTED\<rparr>)"
  have h1: "state (tcb ?running 1) AND XNDORMANT = 0"
    by (simp add: upd_thread_def sample_defs state_bits)
  have h2: "state (tcb pod_boot 2) AND XNDORMANT \<noteq> 0" "state (tcb pod_boot 2) AND XNSTARTED = 0"
    "state (tcb pod_boot 2) = XNDORMANT"
    by (simp_all add: sample_defs state_bits)
  have h3: "{5} \<inter> cpu_online_map pod_boot \<inter> nkaffinity pod_boot = {}"
    "{0} \<inter> cpu_online_map pod_boot \<inter> nkaffinity pod_boot \<noteq> {}"
    by (simp_all add: sample_defs)
  have h4: "state (tcb ?stopped 1) AND XNDORMANT \<noteq> 0" "state (tcb ?stopped 1) AND XNSTARTED \<noteq> 0"
    "cpu_online_map ?stopped = cpu_online_map pod_boot" "nkaffinity ?stopped = nkaffinity pod_boot"
    by (simp_all add: upd_thread_def sample_defs state_bits)
  have c1: "xnpod_start_thread env_quiet cfg_debug ?running 1 0 0 {0} 0 0 = (- EBUSY, ?running)"
    using h1 start_thread_failures[where pod = ?running and thread = 1 and env = env_quiet
          and cfg = cfg_debug and mode = 0 and imsk = 0 and affin = "{0}" and entr = 0 and cook = 0]
    by blast
  have c2: "fst (xnpod_start_thread env_quiet cfg_debug pod_boot 2 0 0 {5} 0 0) = - EINVAL"
    using h2 h3 start_thread_failures[where pod = pod_boot and thread = 2 and env = env_quiet
          and cfg = cfg_debug and mode = 0 and imsk = 0 and affin = "{5}" and entr = 0 and cook = 0]
    by blast
  have "fst (xnpod_start_thread env_quiet cfg_debug pod_boot 2 0 0 {5} 0 0) \<noteq> 0"
    by (simp add: c2 errnos)
  then have c2': "state (tcb (snd (xnpod_start_thread env_quiet cfg_debug pod_boot 2 0 0 {5} 0 0)) 2) =
      state (tcb pod_boot 2)"
    using start_thread_failures[where pod = pod_boot and thread = 2 and env = env_quiet
          and cfg = cfg_debug and mode = 0 and imsk = 0 and affin = "{5}" and entr = 0 and cook = 0]
    by blast
  have c3: "fst (xnpod_start_thread env_quiet cfg_debug ?stopped 1 0 0 {0} 0 0) = - EBUSY"
    using h3 h4 start_thread_failures[where pod = ?stopped and thread = 1 and env = env_quiet
          and cfg = cfg_debug and mode = 0 and imsk = 0 and affin = "{0}" and entr = 0 and cook = 0]
    by simp
  have c4: "fst (xnpod_start_thread env_quiet cfg_debug pod_boot 2 0 0 {0} 0 0) = 0"
    using h2 h3 start_thread_failures[where pod = pod_boot and thread = 2 and env = env_quiet
          and cfg = cfg_debug and mode = 0 and imsk = 0 and affin = "{0}" and entr = 0 and cook = 0]
    by blast
  from h1 h2 h3 h4 c1 c2 c2' c3 c4 show ?thesis by simp
qed

subsection \<open>Suspending with a deadline in the past\<close>

text \<open>
  Claim C3, as stated, fails: for a runnable thread the call first clears the stale
  outcome bits of the information mask, so a \<^verbatim>\<open>XNBREAK\<close> left from an earlier wait is
  lost and \<^verbatim>\<open>XNTIMEO\<close> is not the only change.
\<close>

theorem stale_break_lost_on_past_deadline:
  "\<not> isl (xnpod_suspend_thread env_quiet cfg_debug
            (upd_thread pod_boot 1 (\<lambda>t. t\<lparr>state := XNSTARTED OR XNREADY, info := XNBREAK\<rparr>))
            1 XNDELAY 50 XN_ABSOLUTE None) \<and>
   rawclock pod_boot = 100 \<and>
   info (tcb (upd_thread pod_boot 1 (\<lambda>t. t\<lparr>state := XNSTARTED OR XNREADY, info := XNBREAK\<rparr>)) 1) =
     XNBREAK \<and>
   info (tcb (projr (xnpod_suspend_thread env_quiet cfg_debug
            (upd_thread pod_boot 1 (\<lambda>t. t\<lparr>state := XNSTARTED OR XNREADY, info := XNBREAK\<rparr>))
            1 XNDELAY 50 XN_ABSOLUTE None)) 1) = XNTIMEO \<and>
   XNTIMEO \<noteq> XNBREAK OR XNTIMEO"
  by (simp add: xnpod_suspend_thread_def thread_macros sample_defs state_bits info_bits Let_def
      xntimer_start_def xntimer_set_sched_def XN_INFINITE_def errnos)

text \<open>
  Claim C3, amended. When the deadline is absolute and already in the past (and the
  thread is not a runnable shadow with \<^verbatim>\<open>XNKICKED\<close> pending, and the debug checks
  pass), \<^verbatim>\<open>xnpod_suspend_thread\<close> returns without blocking the thread: its state
  bits and its ready queue link are as before the call, \<^verbatim>\<open>XNTIMEO\<close> is set in the
  information mask after \<^verbatim>\<open>XNRMID\<close>, \<^verbatim>\<open>XNTIMEO\<close>, \<^verbatim>\<open>XNBREAK\<close>, \<^verbatim>\<open>XNWAKEN\<close> and
  \<^verbatim>\<open>XNROBBED\<close> were cleared if the thread had no blocking bit, the resume timer is
  bound to the thread's slot, a wait channel passed in is attached and forgotten at once
  (which clears \<^verbatim>\<open>XNPEND\<close> and the channel), the resched mask of the current CPU gains
  the thread's slot when the thread is the current one of its slot, and nothing else
  changes.
\<close>

theorem suspend_past_deadline:
  assumes nofatal: "\<not> (XENO_DEBUG_NUCLEUS cfg \<and>
                        (state (tcb pod thread) AND XNROOT \<noteq> 0 \<or>
                         wchan (tcb pod thread) \<noteq> None \<and> wchn \<noteq> None))"
    and past: "timeout_mode \<noteq> XN_RELATIVE" "timeout < rawclock pod"
    and nokick: "\<not> (state (tcb pod thread) AND XNTHREAD_BLOCK_BITS = 0 \<and>
                      CONFIG_XENO_OPT_PERVASIVE cfg \<and> info (tcb pod thread) AND XNKICKED \<noteq> 0)"
  shows "xnpod_suspend_thread env cfg pod thread msk timeout timeout_mode wchn =
         Inr (upd_thread
                (if thread = curr (sched_slot pod (sched (tcb pod thread)))
                 then xnsched_set_resched pod (sched (tcb pod thread)) else pod)
                thread
                (\<lambda>t. t\<lparr>rtimer := (rtimer t)\<lparr>tsched := sched t\<rparr>,
                        state := (if wchn = None then state t else state t AND NOT XNPEND),
                        wchan := (if wchn = None then wchan t else None),
                        info := (if state t AND XNTHREAD_BLOCK_BITS = 0
                                 then info t AND NOT (XNRMID OR XNTIMEO OR XNBREAK OR XNWAKEN OR XNROBBED)
                                 else info t) OR XNTIMEO\<rparr>))"
proof -
  have ne: "- ETIMEDOUT \<noteq> (0::int)" by (simp add: errnos)
  show ?thesis
  proof (cases "thread = curr (sched_slot pod (sched (tcb pod thread)))")
    case cur: True
    show ?thesis
    proof (cases "state (tcb pod thread) AND XNTHREAD_BLOCK_BITS = 0")
      case True
      with cur assms ne show ?thesis
        by (cases wchn; cases "CONFIG_XENO_OPT_PERVASIVE cfg")
           (simp_all add: xnpod_suspend_thread_def Let_def thread_macros xntimer_start_def
              xntimer_set_sched_def xnsynch_forget_sleeper_def xnsched_set_resched_def upd_sched_def
              del: bit.de_Morgan_conj bit.de_Morgan_disj)
    next
      case False
      with cur assms ne show ?thesis
        by (cases wchn; cases "CONFIG_XENO_OPT_PERVASIVE cfg")
           (simp_all add: xnpod_suspend_thread_def Let_def thread_macros xntimer_start_def
              xntimer_set_sched_def xnsynch_forget_sleeper_def xnsched_set_resched_def upd_sched_def
              del: bit.de_Morgan_conj bit.de_Morgan_disj)
    qed
  next
    case notcur: False
    show ?thesis
    proof (cases "state (tcb pod thread) AND XNTHREAD_BLOCK_BITS = 0")
      case True
      with notcur assms ne show ?thesis
        by (cases wchn; cases "CONFIG_XENO_OPT_PERVASIVE cfg")
           (simp_all add: xnpod_suspend_thread_def Let_def thread_macros xntimer_start_def
              xntimer_set_sched_def xnsynch_forget_sleeper_def
              del: bit.de_Morgan_conj bit.de_Morgan_disj)
    next
      case False
      with notcur assms ne show ?thesis
        by (cases wchn; cases "CONFIG_XENO_OPT_PERVASIVE cfg")
           (simp_all add: xnpod_suspend_thread_def Let_def thread_macros xntimer_start_def
              xntimer_set_sched_def xnsynch_forget_sleeper_def
              del: bit.de_Morgan_conj bit.de_Morgan_disj)
    qed
  qed
qed


theorem suspend_past_deadline_witness:
  "\<not> (XENO_DEBUG_NUCLEUS cfg_debug \<and>
        (state (tcb (upd_thread pod_boot 1 (\<lambda>t. t\<lparr>state := XNSTARTED OR XNREADY, info := XNBREAK\<rparr>)) 1)
           AND XNROOT \<noteq> 0 \<or>
         wchan (tcb (upd_thread pod_boot 1 (\<lambda>t. t\<lparr>state := XNSTARTED OR XNREADY, info := XNBREAK\<rparr>)) 1)
           \<noteq> None \<and> (None :: nat option) \<noteq> None)) \<and>
   XN_ABSOLUTE \<noteq> XN_RELATIVE \<and>
   (50 :: xnticks_t) <
     rawclock (upd_thread pod_boot 1 (\<lambda>t. t\<lparr>state := XNSTARTED OR XNREADY, info := XNBREAK\<rparr>)) \<and>
   \<not> (state (tcb (upd_thread pod_boot 1 (\<lambda>t. t\<lparr>state := XNSTARTED OR XNREADY, info := XNBREAK\<rparr>)) 1)
         AND XNTHREAD_BLOCK_BITS = 0 \<and> CONFIG_XENO_OPT_PERVASIVE cfg_debug \<and>
       info (tcb (upd_thread pod_boot 1 (\<lambda>t. t\<lparr>state := XNSTARTED OR XNREADY, info := XNBREAK\<rparr>)) 1)
         AND XNKICKED \<noteq> 0) \<and>
   xnpod_suspend_thread env_quiet cfg_debug
       (upd_thread pod_boot 1 (\<lambda>t. t\<lparr>state := XNSTARTED OR XNREADY, info := XNBREAK\<rparr>))
       1 XNDELAY 50 XN_ABSOLUTE None =
     Inr (upd_thread pod_boot 1 (\<lambda>t. t\<lparr>state := XNSTARTED OR XNREADY, info := XNTIMEO\<rparr>))"
proof -
  let ?pod = "upd_thread pod_boot 1 (\<lambda>t. t\<lparr>state := XNSTARTED OR XNREADY, info := XNBREAK\<rparr>)"
  have nofatal: "\<not> (XENO_DEBUG_NUCLEUS cfg_debug \<and>
        (state (tcb ?pod 1) AND XNROOT \<noteq> 0 \<or>
         wchan (tcb ?pod 1) \<noteq> None \<and> (None :: nat option) \<noteq> None))"
    by (simp add: upd_thread_def sample_defs state_bits)
  have past: "XN_ABSOLUTE \<noteq> XN_RELATIVE" "(50 :: xnticks_t) < rawclock ?pod"
    by (simp_all add: upd_thread_def sample_defs)
  have nokick: "\<not> (state (tcb ?pod 1) AND XNTHREAD_BLOCK_BITS = 0 \<and>
       CONFIG_XENO_OPT_PERVASIVE cfg_debug \<and> info (tcb ?pod 1) AND XNKICKED \<noteq> 0)"
    by (simp add: upd_thread_def sample_defs state_bits info_bits)
  have "xnpod_suspend_thread env_quiet cfg_debug ?pod 1 XNDELAY 50 XN_ABSOLUTE None =
     Inr (upd_thread pod_boot 1 (\<lambda>t. t\<lparr>state := XNSTARTED OR XNREADY, info := XNTIMEO\<rparr>))"
    using suspend_past_deadline[OF nofatal past nokick, of env_quiet XNDELAY]
    by (simp add: upd_thread_def sample_defs state_bits info_bits)
  with nofatal past nokick show ?thesis by blast
qed

subsection \<open>The periodic wait\<close>

lemma delay_not_relax: "XNDELAY AND XNRELAX = 0"
  by (simp add: state_bits)

lemma suspend_delay_returns:
  "\<not> (XENO_DEBUG_NUCLEUS cfg \<and> state (tcb pod thread) AND XNROOT \<noteq> 0) \<Longrightarrow>
   \<not> isl (xnpod_suspend_thread env cfg pod thread XNDELAY XN_INFINITE XN_RELATIVE None)"
  by (simp add: xnpod_suspend_thread_def Let_def xnthread_test_state_def delay_not_relax)

lemmas periodic_defs = pod_periodic_def env_unblocked_def env_overrun_def

lemma wait_period_overruns_result:
  "wait_period_overruns env pod thread now overruns_r =
     (if fst (xntimer_get_overruns env (ptimer (tcb pod thread)) now) \<noteq> 0 then - ETIMEDOUT else 0,
      if overruns_r then Some (fst (xntimer_get_overruns env (ptimer (tcb pod thread)) now)) else None,
      upd_thread pod thread
        (\<lambda>t. t\<lparr>ptimer := snd (xntimer_get_overruns env (ptimer (tcb pod thread)) now)\<rparr>))"
  by (simp add: wait_period_overruns_def Let_def split: prod.splits)

text \<open>
  Claim C8. \<^verbatim>\<open>xnpod_wait_thread_period\<close> returns \<^verbatim>\<open>-EWOULDBLOCK\<close>, storing
  nothing, when the periodic timer of the current thread is not running. Otherwise,
  when the release point is still ahead the thread is suspended on \<^verbatim>\<open>XNDELAY\<close>, and if
  it comes back with \<^verbatim>\<open>XNBREAK\<close> the call returns \<^verbatim>\<open>-EINTR\<close>, storing nothing;
  otherwise the timer is asked for its overrun count: a non-zero count is stored and
  \<^verbatim>\<open>-ETIMEDOUT\<close> returned, a zero count is stored and 0 returned (the count is stored
  only through a non-null pointer).
\<close>

theorem wait_thread_period_result:
  "(\<not> running (ptimer (tcb pod (xnpod_current_thread pod))) \<longrightarrow>
      xnpod_wait_thread_period env cfg pod overruns_r = Inr (- EWOULDBLOCK, None, pod)) \<and>
   (running (ptimer (tcb pod (xnpod_current_thread pod))) \<longrightarrow>
      (\<forall>ret out pod'.
         xnpod_wait_thread_period env cfg pod overruns_r = Inr (ret, out, pod') \<longrightarrow>
         (let thread = xnpod_current_thread pod;
              waited = (sint (rawclock pod - pexpect (ptimer (tcb pod thread))) < 0);
              pod1 = (if waited
                      then projr (xnpod_suspend_thread env cfg pod thread XNDELAY
                                    XN_INFINITE XN_RELATIVE None)
                      else pod);
              overruns = fst (xntimer_get_overruns env (ptimer (tcb pod1 thread)) (rawclock pod1))
          in if waited \<and> info (tcb pod1 thread) AND XNBREAK \<noteq> 0
               then ret = - EINTR \<and> out = None \<and> pod' = pod1
             else if overruns \<noteq> 0
               then ret = - ETIMEDOUT \<and> out = (if overruns_r then Some overruns else None)
             else ret = 0 \<and> out = (if overruns_r then Some 0 else None)))) \<and>
   (\<not> (XENO_DEBUG_NUCLEUS cfg \<and> state (tcb pod (xnpod_current_thread pod)) AND XNROOT \<noteq> 0) \<longrightarrow>
      \<not> isl (xnpod_wait_thread_period env cfg pod overruns_r))"
proof (intro conjI impI)
  show "\<not> running (ptimer (tcb pod (xnpod_current_thread pod))) \<Longrightarrow>
      xnpod_wait_thread_period env cfg pod overruns_r = Inr (- EWOULDBLOCK, None, pod)"
    by (simp add: xnpod_wait_thread_period_def xntimer_running_p_def Let_def)
  show "running (ptimer (tcb pod (xnpod_current_thread pod))) \<Longrightarrow>
      \<forall>ret out pod'.
         xnpod_wait_thread_period env cfg pod overruns_r = Inr (ret, out, pod') \<longrightarrow>
         (let thread = xnpod_current_thread pod;
              waited = (sint (rawclock pod - pexpect (ptimer (tcb pod thread))) < 0);
              pod1 = (if waited
                      then projr (xnpod_suspend_thread env cfg pod thread XNDELAY
                                    XN_INFINITE XN_RELATIVE None)
                      else pod);
              overruns = fst (xntimer_get_overruns env (ptimer (tcb pod1 thread)) (rawclock pod1))
          in if waited \<and> info (tcb pod1 thread) AND XNBREAK \<noteq> 0
               then ret = - EINTR \<and> out = None \<and> pod' = pod1
             else if overruns \<noteq> 0
               then ret = - ETIMEDOUT \<and> out = (if overruns_r then Some overruns else None)
             else ret = 0 \<and> out = (if overruns_r then Some 0 else None))"
    by (auto simp add: xnpod_wait_thread_period_def xntimer_running_p_def Let_def
        xnthread_test_info_def wait_period_overruns_result split: sum.splits)
  assume nf: "\<not> (XENO_DEBUG_NUCLEUS cfg \<and>
                  state (tcb pod (xnpod_current_thread pod)) AND XNROOT \<noteq> 0)"
  from suspend_delay_returns[OF nf, of env]
  show "\<not> isl (xnpod_wait_thread_period env cfg pod overruns_r)"
    by (auto simp add: xnpod_wait_thread_period_def Let_def split: sum.splits)
qed

theorem wait_thread_period_result_witness:
  "\<not> running (ptimer (tcb pod_boot (xnpod_current_thread pod_boot))) \<and>
   xnpod_wait_thread_period env_quiet cfg_debug pod_boot True = Inr (- EWOULDBLOCK, None, pod_boot) \<and>
   running (ptimer (tcb pod_periodic (xnpod_current_thread pod_periodic))) \<and>
   \<not> isl (xnpod_wait_thread_period env_unblocked cfg_debug pod_periodic True) \<and>
   fst (projr (xnpod_wait_thread_period env_unblocked cfg_debug pod_periodic True)) = - EINTR \<and>
   fst (snd (projr (xnpod_wait_thread_period env_unblocked cfg_debug pod_periodic True))) = None \<and>
   fst (projr (xnpod_wait_thread_period env_overrun cfg_debug (pod_periodic\<lparr>rawclock := 200\<rparr>) True)) =
     - ETIMEDOUT \<and>
   fst (snd (projr (xnpod_wait_thread_period env_overrun cfg_debug
                      (pod_periodic\<lparr>rawclock := 200\<rparr>) True))) = Some 2 \<and>
   fst (projr (xnpod_wait_thread_period env_quiet cfg_debug pod_periodic True)) = 0 \<and>
   fst (snd (projr (xnpod_wait_thread_period env_quiet cfg_debug pod_periodic True))) = Some 0"
proof -
  have cur: "xnpod_current_thread pod_boot = 0" "xnpod_current_thread pod_periodic = 1"
    "xnpod_current_thread (pod_periodic\<lparr>rawclock := 200\<rparr>) = 1"
    by (simp_all add: xnpod_current_thread_def periodic_defs upd_thread_def sample_defs)
  have a: "\<not> running (ptimer (tcb pod_boot (xnpod_current_thread pod_boot)))"
    by (simp add: cur sample_defs)
  have st: "running (ptimer (tcb pod_periodic 1))" "state (tcb pod_periodic 1) = XNSTARTED"
    by (simp_all add: periodic_defs upd_thread_def sample_defs)
  have b: "running (ptimer (tcb pod_periodic (xnpod_current_thread pod_periodic)))"
    using st by (simp add: cur)
  have nroot: "\<not> (XENO_DEBUG_NUCLEUS cfg_debug \<and>
        state (tcb pod_periodic (xnpod_current_thread pod_periodic)) AND XNROOT \<noteq> 0)"
    using st by (simp add: cur state_bits)
  have c: "xnpod_wait_thread_period env_quiet cfg_debug pod_boot True =
      Inr (- EWOULDBLOCK, None, pod_boot)"
    using a wait_thread_period_result[of pod_boot env_quiet cfg_debug True] by blast
  have d: "\<not> isl (xnpod_wait_thread_period env_unblocked cfg_debug pod_periodic True)"
    using nroot wait_thread_period_result[of pod_periodic env_unblocked cfg_debug True] by blast
  have e: "fst (projr (xnpod_wait_thread_period env_unblocked cfg_debug pod_periodic True)) = - EINTR"
    "fst (snd (projr (xnpod_wait_thread_period env_unblocked cfg_debug pod_periodic True))) = None"
    by (simp_all add: xnpod_wait_thread_period_def xnpod_current_thread_def Let_def suspend_defs resume_defs
        xnpod_unblock_thread_def thread_macros sched_prims periodic_defs sample_defs state_bits
        info_bits timer_defs)
  have f: "fst (projr (xnpod_wait_thread_period env_overrun cfg_debug (pod_periodic\<lparr>rawclock := 200\<rparr>) True)) =
       - ETIMEDOUT"
    "fst (snd (projr (xnpod_wait_thread_period env_overrun cfg_debug
                      (pod_periodic\<lparr>rawclock := 200\<rparr>) True))) = Some 2"
    by (simp_all add: xnpod_wait_thread_period_def xnpod_current_thread_def Let_def wait_period_overruns_def
        thread_macros periodic_defs sample_defs timer_defs)
  have g: "fst (projr (xnpod_wait_thread_period env_quiet cfg_debug pod_periodic True)) = 0"
    "fst (snd (projr (xnpod_wait_thread_period env_quiet cfg_debug pod_periodic True))) = Some 0"
    by (simp_all add: xnpod_wait_thread_period_def xnpod_current_thread_def Let_def suspend_defs
        wait_period_overruns_def thread_macros sched_prims periodic_defs sample_defs state_bits
        info_bits timer_defs)
  from a b c d e f g show ?thesis by blast
qed

subsection \<open>READY excludes the blocking bits\<close>

lemma test_or: "((a OR b) AND k = 0) = (a AND k = 0 \<and> b AND k = 0)" for a :: "'a::len word"
  by (simp add: bit.conj_disj_distrib2 or_eq_0_iff)

lemma test_or_mask: "(a AND (k OR l) = 0) = (a AND k = 0 \<and> a AND l = 0)" for a :: "'a::len word"
  by (simp add: bit.conj_disj_distrib or_eq_0_iff)

lemma test_andnot:
  "k = 2 ^ n \<Longrightarrow> ((a AND NOT b) AND k = 0) = (a AND k = 0 \<or> b AND k \<noteq> 0)"
  for a :: "'a::len word"
  by (auto simp add: word_bits_eq bit_simps)

lemma block_bits_pow:
  "XNSUSP = 2 ^ 0" "XNPEND = 2 ^ 1" "XNDELAY = 2 ^ 2" "XNREADY = 2 ^ 3" "XNDORMANT = 2 ^ 4"
  "XNRELAX = 2 ^ 9"
  by (simp_all add: state_bits)

lemmas test_andnot_bits =
  test_andnot[OF block_bits_pow(1)] test_andnot[OF block_bits_pow(2)]
  test_andnot[OF block_bits_pow(3)] test_andnot[OF block_bits_pow(4)]
  test_andnot[OF block_bits_pow(5)] test_andnot[OF block_bits_pow(6)]

lemma test_block:
  "(a AND XNTHREAD_BLOCK_BITS = 0) =
   (a AND XNSUSP = 0 \<and> a AND XNPEND = 0 \<and> a AND XNDELAY = 0 \<and> a AND XNDORMANT = 0 \<and>
    a AND XNRELAX = 0)"
  by (simp add: XNTHREAD_BLOCK_BITS_def test_or_mask)

lemma bit_table:
  "XNREADY AND XNSUSP = 0" "XNREADY AND XNPEND = 0" "XNREADY AND XNDELAY = 0"
  "XNREADY AND XNDORMANT = 0" "XNREADY AND XNRELAX = 0" "XNREADY AND XNREADY \<noteq> 0"
  "XNDELAY AND XNSUSP = 0" "XNDELAY AND XNPEND = 0" "XNDELAY AND XNDELAY \<noteq> 0"
  "XNDELAY AND XNDORMANT = 0" "XNDELAY AND XNRELAX = 0" "XNDELAY AND XNREADY = 0"
  "XNPEND AND XNSUSP = 0" "XNPEND AND XNPEND \<noteq> 0" "XNPEND AND XNDELAY = 0"
  "XNPEND AND XNDORMANT = 0" "XNPEND AND XNRELAX = 0" "XNPEND AND XNREADY = 0"
  "XNDORMANT AND XNSUSP = 0" "XNDORMANT AND XNPEND = 0" "XNDORMANT AND XNDELAY = 0"
  "XNDORMANT AND XNDORMANT \<noteq> 0" "XNDORMANT AND XNRELAX = 0" "XNDORMANT AND XNREADY = 0"
  "XNZOMBIE AND XNSUSP = 0" "XNZOMBIE AND XNPEND = 0" "XNZOMBIE AND XNDELAY = 0"
  "XNZOMBIE AND XNDORMANT = 0" "XNZOMBIE AND XNRELAX = 0" "XNZOMBIE AND XNREADY = 0"
  "XNREADY \<noteq> 0" "XNPEND \<noteq> 0" "XNDELAY \<noteq> 0" "XNDORMANT \<noteq> 0" "XNSUSP \<noteq> 0"
  "XNRELAX \<noteq> 0"
  by (simp_all add: state_bits)

lemmas bit_tests = test_or test_andnot_bits test_block bit_table

lemma andnot_keeps_zero: "a AND k = 0 \<Longrightarrow> (a AND NOT b) AND k = 0" for a :: "'a::len word"
  by (auto simp add: word_bits_eq bit_simps)

lemma andnot_same_zero: "(a AND NOT k) AND k = 0" for a :: "'a::len word"
  by (auto simp add: word_bits_eq bit_simps)

lemma block_has_pend: "a AND XNTHREAD_BLOCK_BITS = 0 \<Longrightarrow> a AND XNPEND = 0"
  by (simp add: test_block)

lemma ready_not_block: "XNREADY AND XNTHREAD_BLOCK_BITS = 0" "XNREADY AND XNPEND = 0"
  by (simp_all add: state_bits)

lemma unlinked_invI: "thread_inv t \<Longrightarrow> state t AND XNTHREAD_BLOCK_BITS \<noteq> 0 \<Longrightarrow> unlinked_inv t"
  by (auto simp add: unlinked_inv_def thread_inv_def)

lemma unlinked_invD: "unlinked_inv t \<Longrightarrow> thread_inv t"
  by (simp add: unlinked_inv_def)

lemma unlinked_clear_state:
  "unlinked_inv (tcb pod thread) \<Longrightarrow> unlinked_inv (tcb (xnthread_clear_state pod thread b) thread)"
  by (auto simp add: unlinked_inv_def thread_inv_def thread_macros andnot_keeps_zero)

lemma unlinked_forget_sleeper:
  "unlinked_inv (tcb pod thread) \<Longrightarrow> unlinked_inv (tcb (xnsynch_forget_sleeper pod thread) thread)"
  by (simp add: unlinked_inv_def thread_inv_def xnsynch_forget_sleeper_def thread_macros
      andnot_keeps_zero andnot_same_zero)

lemma unlinked_upd_rtimer:
  "unlinked_inv (tcb pod thread) \<Longrightarrow>
   unlinked_inv (tcb (upd_thread pod thread (\<lambda>t. t\<lparr>rtimer := f t\<rparr>)) thread)"
  by (simp add: unlinked_inv_def thread_inv_def upd_thread_def)

lemma enqueue_inv:
  "xnthread_test_state pod thread XNTHREAD_BLOCK_BITS = 0 \<Longrightarrow>
   thread_inv (tcb (resume_enqueue pod thread sch) thread)"
  by (simp add: resume_enqueue_def thread_macros sched_prims thread_inv_def test_or
      ready_not_block block_has_pend)

lemma dequeue_test [simp]:
  "xnthread_test_state (xnsched_dequeue pod thread) t b = xnthread_test_state pod t b"
  by (simp add: xnthread_test_state_def sched_prims)

lemma forget_keeps_unblocked:
  "xnthread_test_state pod thread XNTHREAD_BLOCK_BITS = 0 \<Longrightarrow>
   xnthread_test_state (xnsynch_forget_sleeper pod thread) thread XNTHREAD_BLOCK_BITS = 0"
  by (simp add: xnsynch_forget_sleeper_def thread_macros andnot_keeps_zero)

lemma clear_wchan_inv:
  "xnthread_test_state pod thread XNTHREAD_BLOCK_BITS = 0 \<Longrightarrow>
   thread_inv (tcb (resume_clear_wchan pod thread sch m) thread)"
  by (simp add: resume_clear_wchan_def enqueue_inv forget_keeps_unblocked)

lemma unlinked_pend_wchan:
  "unlinked_inv (tcb pod thread) \<Longrightarrow> xnthread_test_state pod thread XNPEND \<noteq> 0 \<Longrightarrow>
   (wchan (tcb pod thread) = None) = False"
  by (simp add: unlinked_inv_def thread_inv_def xnthread_test_state_def)

lemma tcb_sched_prims [simp]:
  "tcb (upd_sched pod c f) = tcb pod"
  "tcb (xnsched_enqueue pod thread) = tcb pod"
  "tcb (xnsched_dequeue pod thread) = tcb pod"
  "tcb (xnsched_set_resched pod c) = tcb pod"
  by (simp_all add: sched_prims)

lemma tcb_other [simp]:
  "t \<noteq> thread \<Longrightarrow> tcb (upd_thread pod thread f) t = tcb pod t"
  "t \<noteq> thread \<Longrightarrow> tcb (xnthread_set_state pod thread b) t = tcb pod t"
  "t \<noteq> thread \<Longrightarrow> tcb (xnthread_clear_state pod thread b) t = tcb pod t"
  "t \<noteq> thread \<Longrightarrow> tcb (xnthread_set_info pod thread b) t = tcb pod t"
  "t \<noteq> thread \<Longrightarrow> tcb (xnthread_clear_info pod thread b) t = tcb pod t"
  "t \<noteq> thread \<Longrightarrow> tcb (xnsynch_forget_sleeper pod thread) t = tcb pod t"
  by (simp_all add: thread_macros xnsynch_forget_sleeper_def)

lemma tcb_other_resume_labels [simp]:
  "t \<noteq> thread \<Longrightarrow> tcb (resume_enqueue pod thread sch) t = tcb pod t"
  "t \<noteq> thread \<Longrightarrow> tcb (resume_clear_wchan pod thread sch m) t = tcb pod t"
  by (simp_all add: resume_enqueue_def resume_clear_wchan_def)

lemma resume_frame:
  "t \<noteq> thread \<Longrightarrow> tcb (xnpod_resume_thread pod thread msk) t = tcb pod t"
  by (simp add: xnpod_resume_thread_def Let_def)

lemma resume_thread_inv:
  assumes inv: "thread_inv (tcb pod thread)"
  shows "thread_inv (tcb (xnpod_resume_thread pod thread msk) thread)"
proof (cases "xnthread_test_state pod thread XNTHREAD_BLOCK_BITS = 0")
  case True
  then show ?thesis
    by (simp add: xnpod_resume_thread_def enqueue_inv)
next
  case False
  with inv have "unlinked_inv (tcb pod thread)"
    by (simp add: unlinked_invI xnthread_test_state_def)
  with False show ?thesis
    by (simp add: xnpod_resume_thread_def Let_def clear_wchan_inv unlinked_invD
        unlinked_clear_state unlinked_forget_sleeper unlinked_upd_rtimer unlinked_pend_wchan)
qed


lemma pod_inv_resume: "pod_inv pod \<Longrightarrow> pod_inv (xnpod_resume_thread pod thread msk)"
  unfolding pod_inv_def
proof
  fix t
  assume a: "\<forall>t. thread_inv (tcb pod t)"
  show "thread_inv (tcb (xnpod_resume_thread pod thread msk) t)"
  proof (cases "t = thread")
    case True
    with a show ?thesis by (simp add: resume_thread_inv)
  next
    case False
    with a show ?thesis by (simp add: resume_frame)
  qed
qed

lemma thread_inv_other_fields [simp]:
  "thread_inv (t\<lparr>info := x\<rparr>) = thread_inv t"
  "thread_inv (t\<lparr>rtimer := y\<rparr>) = thread_inv t"
  "thread_inv (t\<lparr>ptimer := y\<rparr>) = thread_inv t"
  "thread_inv (t\<lparr>affinity := a\<rparr>) = thread_inv t"
  "thread_inv (t\<lparr>sched := c\<rparr>) = thread_inv t"
  "thread_inv (t\<lparr>imask := i\<rparr>) = thread_inv t"
  "thread_inv (t\<lparr>imode := x\<rparr>) = thread_inv t"
  "thread_inv (t\<lparr>entry := n\<rparr>) = thread_inv t"
  "thread_inv (t\<lparr>cookie := n\<rparr>) = thread_inv t"
  "thread_inv (t\<lparr>rrcredit := k\<rparr>) = thread_inv t"
  by (simp_all add: thread_inv_def)

lemma pod_inv_upd_same:
  "(\<And>t. thread_inv (f t) = thread_inv t) \<Longrightarrow> pod_inv (upd_thread pod thread f) = pod_inv pod"
  by (auto simp add: pod_inv_def upd_thread_def)

lemma pod_inv_upd_sched [simp]: "pod_inv (upd_sched pod c f) = pod_inv pod"
  by (simp add: pod_inv_def upd_sched_def)

lemma pod_inv_frame [simp]:
  "pod_inv (xnsched_enqueue pod thread) = pod_inv pod"
  "pod_inv (xnsched_dequeue pod thread) = pod_inv pod"
  "pod_inv (xnsched_set_resched pod c) = pod_inv pod"
  "pod_inv (xnthread_set_info pod thread b) = pod_inv pod"
  "pod_inv (xnthread_clear_info pod thread b) = pod_inv pod"
  "pod_inv (upd_thread pod thread (\<lambda>t. t\<lparr>rtimer := g t\<rparr>)) = pod_inv pod"
  "pod_inv (pod\<lparr>threadq := q, threadq_rev := r\<rparr>) = pod_inv pod"
  by (simp_all add: xnsched_enqueue_def xnsched_dequeue_def xnsched_set_resched_def
      xnthread_set_info_def xnthread_clear_info_def pod_inv_upd_same)
     (simp add: pod_inv_def)

lemma inside_disjoint: "k AND b = 0 \<Longrightarrow> m AND NOT b = 0 \<Longrightarrow> m AND k = 0" for m :: "'a::len word"
  by (auto simp add: word_bits_eq bit_simps)

lemma mask_not_ready: "m AND NOT XNTHREAD_BLOCK_BITS = 0 \<Longrightarrow> m AND XNREADY = 0"
  by (rule inside_disjoint[OF ready_not_block(1)])

lemma suspend_block_inv:
  assumes others: "\<forall>t. t \<noteq> thread \<longrightarrow> thread_inv (tcb pod t)"
    and pw: "state (tcb pod thread) AND XNPEND \<noteq> 0 \<longrightarrow> wchan (tcb pod thread) \<noteq> None"
    and m: "msk AND XNREADY = 0"
      "msk AND XNPEND \<noteq> 0 \<longrightarrow> wchn \<noteq> None \<or> wchan (tcb pod thread) \<noteq> None"
    and env: "env_inv env"
  shows "pod_inv (suspend_block env pod thread msk wchn sch)"
proof -
  define pod3 where
    "pod3 = (let pod1 = (if xnthread_test_state pod thread XNREADY \<noteq> 0
                  then xnthread_clear_state (xnsched_dequeue pod thread) thread XNREADY
                  else pod);
              pod2 = xnthread_set_state pod1 thread msk
          in (if wchn \<noteq> None then upd_thread pod2 thread (\<lambda>t. t\<lparr>wchan := wchn\<rparr>) else pod2))"
  have r: "suspend_block env pod thread msk wchn sch =
        (if thread = curr (sched_slot pod3 sch) then xnpod_schedule env pod3 else pod3)"
    by (simp add: suspend_block_def pod3_def Let_def)
  have fr: "\<And>t. t \<noteq> thread \<Longrightarrow> tcb pod3 t = tcb pod t"
    by (simp add: pod3_def Let_def)
  have th: "thread_inv (tcb pod3 thread)"
    using pw m
    by (cases wchn; cases "state (tcb pod thread) AND XNREADY = 0")
       (auto simp add: pod3_def Let_def thread_inv_def thread_macros sched_prims bit_tests
          simp del: bit.de_Morgan_conj bit.de_Morgan_disj)
  have "pod_inv pod3"
    unfolding pod_inv_def
  proof
    fix t show "thread_inv (tcb pod3 t)"
      using others fr th by (cases "t = thread") simp_all
  qed
  with env show ?thesis by (simp add: r env_inv_def)
qed


lemma thread_proj [simp]:
  "state (tcb (xnthread_set_state pod thread b) thread) = state (tcb pod thread) OR b"
  "wchan (tcb (xnthread_set_state pod thread b) t) = wchan (tcb pod t)"
  "state (tcb (xnthread_clear_state pod thread b) thread) = state (tcb pod thread) AND NOT b"
  "wchan (tcb (xnthread_clear_state pod thread b) t) = wchan (tcb pod t)"
  "state (tcb (xnthread_set_info pod thread b) t) = state (tcb pod t)"
  "wchan (tcb (xnthread_set_info pod thread b) t) = wchan (tcb pod t)"
  "state (tcb (xnthread_clear_info pod thread b) t) = state (tcb pod t)"
  "wchan (tcb (xnthread_clear_info pod thread b) t) = wchan (tcb pod t)"
  "state (tcb (upd_thread pod thread (\<lambda>t. t\<lparr>rtimer := g t\<rparr>)) t) = state (tcb pod t)"
  "wchan (tcb (upd_thread pod thread (\<lambda>t. t\<lparr>rtimer := g t\<rparr>)) t) = wchan (tcb pod t)"
  by (simp_all add: thread_macros)

lemma test_andnot_imp: "(a AND NOT b) AND k \<noteq> 0 \<Longrightarrow> a AND k \<noteq> 0" for a :: "'a::len word"
  by (auto simp add: word_bits_eq bit_simps)

lemma pod_invD: "pod_inv pod \<Longrightarrow> thread_inv (tcb pod t)"
  by (simp add: pod_inv_def)

lemma pod_inv_forget_attached:
  assumes "pod_inv pod"
  shows "pod_inv (xnsynch_forget_sleeper (upd_thread pod thread (\<lambda>t. t\<lparr>wchan := w\<rparr>)) thread)"
  unfolding pod_inv_def
proof
  fix t
  from assms have a: "thread_inv (tcb pod t)" by (rule pod_invD)
  show "thread_inv (tcb (xnsynch_forget_sleeper (upd_thread pod thread (\<lambda>t. t\<lparr>wchan := w\<rparr>)) thread) t)"
    using a
    by (cases "t = thread")
       (auto simp add: xnsynch_forget_sleeper_def thread_macros thread_inv_def
          andnot_keeps_zero andnot_same_zero dest: test_andnot_imp)
qed

lemma pod_inv_suspend:
  assumes inv: "pod_inv pod" and env: "env_inv env"
    and adm: "suspend_admissible pod thread msk wchn"
    and r: "xnpod_suspend_thread env cfg pod thread msk timeout timeout_mode wchn = Inr pod'"
  shows "pod_inv pod'"
proof -
  define sch where "sch = sched (tcb pod thread)"
  define pod1 where
    "pod1 = (if thread = curr (sched_slot pod sch) then xnsched_set_resched pod sch else pod)"
  define pod2 where
    "pod2 = (if xnthread_test_state pod1 thread XNTHREAD_BLOCK_BITS = 0
             then xnthread_clear_info pod1 thread
                    (XNRMID OR XNTIMEO OR XNBREAK OR XNWAKEN OR XNROBBED)
             else pod1)"
  define pod3 where
    "pod3 = upd_thread pod2 thread (\<lambda>t. t\<lparr>rtimer := xntimer_set_sched (rtimer t) (sched t)\<rparr>)"
  define rct where
    "rct = xntimer_start (rawclock pod3) (rtimer (tcb pod3 thread)) timeout XN_INFINITE timeout_mode"
  define pod4 where "pod4 = upd_thread pod3 thread (\<lambda>t. t\<lparr>rtimer := snd rct\<rparr>)"
  have i1: "pod_inv pod1" using inv by (simp add: pod1_def)
  have i2: "pod_inv pod2" using i1 by (simp add: pod2_def)
  have i4: "pod_inv pod4" using i2 by (simp add: pod4_def pod3_def)
  have sw2: "state (tcb pod2 thread) = state (tcb pod thread)"
    "wchan (tcb pod2 thread) = wchan (tcb pod thread)"
    by (simp_all add: pod2_def pod1_def)
  have sw4: "state (tcb pod4 thread) = state (tcb pod thread)"
    "wchan (tcb pod4 thread) = wchan (tcb pod thread)"
    using sw2 by (simp_all add: pod4_def pod3_def)
  have mr: "msk AND XNREADY = 0" using adm by (simp add: suspend_admissible_def mask_not_ready)
  have mp: "msk AND XNPEND \<noteq> 0 \<longrightarrow> wchn \<noteq> None \<or> wchan (tcb pod thread) \<noteq> None"
    using adm by (simp add: suspend_admissible_def)
  have b2: "pod_inv (suspend_block env pod2 thread msk wchn sch)"
  proof (rule suspend_block_inv)
    show "\<forall>t. t \<noteq> thread \<longrightarrow> thread_inv (tcb pod2 t)"
      using i2 by (simp add: pod_invD)
    show "state (tcb pod2 thread) AND XNPEND \<noteq> 0 \<longrightarrow> wchan (tcb pod2 thread) \<noteq> None"
      using pod_invD[OF i2, of thread] by (simp add: thread_inv_def)
    show "msk AND XNREADY = 0" by (rule mr)
    show "msk AND XNPEND \<noteq> 0 \<longrightarrow> wchn \<noteq> None \<or> wchan (tcb pod2 thread) \<noteq> None"
      using mp sw2 by simp
    show "env_inv env" by (rule env)
  qed
  have b4: "pod_inv (suspend_block env (xnthread_set_state pod4 thread XNDELAY) thread msk wchn sch)"
  proof (rule suspend_block_inv)
    show "\<forall>t. t \<noteq> thread \<longrightarrow> thread_inv (tcb (xnthread_set_state pod4 thread XNDELAY) t)"
      using i4 by (simp add: pod_invD)
    show "state (tcb (xnthread_set_state pod4 thread XNDELAY) thread) AND XNPEND \<noteq> 0 \<longrightarrow>
          wchan (tcb (xnthread_set_state pod4 thread XNDELAY) thread) \<noteq> None"
      using pod_invD[OF inv, of thread] sw4
      by (simp add: thread_inv_def test_or bit_table)
    show "msk AND XNREADY = 0" by (rule mr)
    show "msk AND XNPEND \<noteq> 0 \<longrightarrow>
          wchn \<noteq> None \<or> wchan (tcb (xnthread_set_state pod4 thread XNDELAY) thread) \<noteq> None"
      using mp sw4 by simp
    show "env_inv env" by (rule env)
  qed
  have k: "pod_inv (xnthread_set_info (xnthread_clear_info pod1 thread (XNRMID OR XNTIMEO)) thread XNBREAK)"
    using i1 by simp
  have x: "pod_inv (xnthread_set_info
                     (if wchn \<noteq> None
                      then xnsynch_forget_sleeper
                             (upd_thread pod4 thread (\<lambda>t. t\<lparr>wchan := wchn\<rparr>)) thread
                      else pod4) thread XNTIMEO)"
    using i4 by (simp add: pod_inv_forget_attached)
  from r show ?thesis
    unfolding xnpod_suspend_thread_def Let_def sch_def[symmetric] pod1_def[symmetric]
      pod2_def[symmetric] pod3_def[symmetric] rct_def[symmetric]
    using b2 b4 k x
    by (auto simp add: pod4_def split: if_splits prod.splits)
qed


lemma pod_inv_unblock: "pod_inv pod \<Longrightarrow> pod_inv (snd (xnpod_unblock_thread pod thread))"
  by (simp add: xnpod_unblock_thread_def pod_inv_resume)

lemma pod_inv_fire_callouts [simp]:
  "pod_inv (snd (xnpod_fire_callouts pod hookq thread)) = pod_inv pod"
  by (simp add: xnpod_fire_callouts_def Let_def)

lemma pod_inv_clear_state: "pod_inv pod \<Longrightarrow> pod_inv (xnthread_clear_state pod thread b)"
  unfolding pod_inv_def
proof
  fix t
  assume "\<forall>t. thread_inv (tcb pod t)"
  then have a: "thread_inv (tcb pod t)" ..
  show "thread_inv (tcb (xnthread_clear_state pod thread b) t)"
    using a
    by (cases "t = thread")
       (auto simp add: thread_macros thread_inv_def andnot_keeps_zero dest: test_andnot_imp)
qed

lemma pod_inv_forget_sleeper: "pod_inv pod \<Longrightarrow> pod_inv (xnsynch_forget_sleeper pod thread)"
  unfolding pod_inv_def
proof
  fix t
  assume "\<forall>t. thread_inv (tcb pod t)"
  then have a: "thread_inv (tcb pod t)" ..
  show "thread_inv (tcb (xnsynch_forget_sleeper pod thread) t)"
    using a
    by (cases "t = thread")
       (auto simp add: xnsynch_forget_sleeper_def thread_macros thread_inv_def
          andnot_keeps_zero andnot_same_zero dest: test_andnot_imp)
qed

lemma pod_inv_set_state:
  assumes "pod_inv pod" and "m AND XNPEND = 0" and "m AND XNREADY = 0"
    and "state (tcb pod thread) AND XNREADY = 0 \<or> m AND XNTHREAD_BLOCK_BITS = 0"
  shows "pod_inv (xnthread_set_state pod thread m)"
  unfolding pod_inv_def
proof
  fix t
  from assms(1) have a: "thread_inv (tcb pod t)" by (rule pod_invD)
  show "thread_inv (tcb (xnthread_set_state pod thread m) t)"
    using a assms(2-)
    by (cases "t = thread")
       (auto simp add: thread_macros thread_inv_def test_or)
qed

lemma and_inside_zero: "c AND k = 0 \<Longrightarrow> (x AND c) AND k = 0" for x :: "'a::len word"
  by (auto simp add: word_bits_eq bit_simps)

lemma start_mode_bits:
  "((mode AND (XNTHREAD_MODE_BITS OR XNSUSP)) OR XNSTARTED) AND XNPEND = 0"
  "((mode AND (XNTHREAD_MODE_BITS OR XNSUSP)) OR XNSTARTED) AND XNREADY = 0"
proof -
  have c: "(XNTHREAD_MODE_BITS OR XNSUSP) AND XNPEND = 0" "XNSTARTED AND XNPEND = 0"
    "(XNTHREAD_MODE_BITS OR XNSUSP) AND XNREADY = 0" "XNSTARTED AND XNREADY = 0"
    by (simp_all add: state_bits)
  show "((mode AND (XNTHREAD_MODE_BITS OR XNSUSP)) OR XNSTARTED) AND XNPEND = 0"
    by (simp add: test_or c and_inside_zero del: bit.de_Morgan_conj bit.de_Morgan_disj)
  show "((mode AND (XNTHREAD_MODE_BITS OR XNSUSP)) OR XNSTARTED) AND XNREADY = 0"
    by (simp add: test_or c and_inside_zero del: bit.de_Morgan_conj bit.de_Morgan_disj)
qed

lemma dormant_not_ready:
  "thread_inv t \<Longrightarrow> state t AND XNDORMANT \<noteq> 0 \<Longrightarrow> state t AND XNREADY = 0"
  by (auto simp add: thread_inv_def test_block)

lemma pod_inv_start:
  assumes inv: "pod_inv pod" and env: "env_inv env"
  shows "pod_inv (snd (xnpod_start_thread env cfg pod thread mode imsk affin entr cook))"
proof (cases "xnthread_test_state pod thread XNDORMANT = 0")
  case True
  with inv show ?thesis by (simp add: xnpod_start_thread_def)
next
  case False
  define pod1 where
    "pod1 = upd_thread pod thread (\<lambda>t. t\<lparr>affinity := affin \<inter> nkaffinity pod \<inter> cpu_online_map pod\<rparr>)"
  define pod2 where
    "pod2 = (if CONFIG_SMP cfg \<and> sched (tcb pod1 thread) \<notin> affinity (tcb pod1 thread)
             then upd_thread pod1 thread (\<lambda>t. t\<lparr>sched := xnarch_first_cpu (affinity t)\<rparr>)
             else pod1)"
  define mode1 where
    "mode1 = (if CONFIG_XENO_OPT_ISHIELD cfg then mode else mode AND NOT XNSHIELD)"
  define pod3 where
    "pod3 = xnthread_set_state pod2 thread ((mode1 AND (XNTHREAD_MODE_BITS OR XNSUSP)) OR XNSTARTED)"
  define pod4 where
    "pod4 = upd_thread pod3 thread
              (\<lambda>t. t\<lparr>imask := imsk, imode := mode1 AND XNTHREAD_MODE_BITS,
                      entry := entr, cookie := cook\<rparr>)"
  define pod5 where
    "pod5 = (if xnthread_test_state pod4 thread XNRRB \<noteq> 0
             then upd_thread pod4 thread (\<lambda>t. t\<lparr>rrcredit := rrperiod t\<rparr>)
             else pod4)"
  have i1: "pod_inv pod1" using inv by (simp add: pod1_def pod_inv_upd_same)
  have i2: "pod_inv pod2" using i1 by (simp add: pod2_def pod_inv_upd_same)
  have s2: "state (tcb pod2 thread) = state (tcb pod thread)"
    by (simp add: pod2_def pod1_def upd_thread_def)
  have nr: "state (tcb pod2 thread) AND XNREADY = 0"
    using pod_invD[OF inv, of thread] False
    by (simp add: s2 dormant_not_ready xnthread_test_state_def)
  have i3: "pod_inv pod3"
    unfolding pod3_def using i2 nr by (intro pod_inv_set_state) (simp_all add: start_mode_bits)
  have i4: "pod_inv pod4" using i3 by (simp add: pod4_def pod_inv_upd_same)
  have i5: "pod_inv pod5" using i4 by (simp add: pod5_def pod_inv_upd_same)
  have sh: "pod_inv (xnpod_schedule env (xnshadow_start env thread pod5))"
    using i5 env by (simp add: env_inv_def)
  have i6: "pod_inv (xnpod_resume_thread pod5 thread XNDORMANT)"
    using i5 by (rule pod_inv_resume)
  have ks: "\<And>p. pod_inv p \<Longrightarrow> pod_inv (xnpod_schedule env p)"
    using env by (simp add: env_inv_def)
  show ?thesis
    unfolding xnpod_start_thread_def Let_def pod1_def[symmetric] pod2_def[symmetric]
      mode1_def[symmetric] pod3_def[symmetric] pod4_def[symmetric] pod5_def[symmetric]
    using inv False i1 i2 sh i6 ks by simp
qed


lemma zombie_bits:
  "XNZOMBIE AND XNPEND = 0" "XNZOMBIE AND XNREADY = 0" "XNZOMBIE AND XNTHREAD_BLOCK_BITS = 0"
  by (simp_all add: state_bits)

lemma pod_inv_giveup_fpu [simp]: "pod_inv (xnpod_giveup_fpu cfg pod c thread) = pod_inv pod"
  by (simp add: xnpod_giveup_fpu_def)

lemma pod_inv_delete:
  assumes inv: "pod_inv pod" and env: "env_inv env"
    and r: "xnpod_delete_thread env cfg pod thread = Inr pod'"
  shows "pod_inv pod'"
proof -
  define sch where "sch = sched (tcb pod thread)"
  define pod1 where
    "pod1 = pod\<lparr>threadq := removeq (threadq pod) thread, threadq_rev := threadq_rev pod + 1\<rparr>"
  define pod2 where
    "pod2 = (if xnthread_test_state pod1 thread XNREADY \<noteq> 0
             then xnthread_clear_state (xnsched_dequeue pod1 thread) thread XNREADY
             else pod1)"
  define pod3 where
    "pod3 = upd_thread pod2 thread
              (\<lambda>t. t\<lparr>rtimer := xntimer_destroy (rtimer t), ptimer := xntimer_destroy (ptimer t)\<rparr>)"
  define pod4 where
    "pod4 = (if xnthread_test_state pod3 thread XNPEND \<noteq> 0
             then xnsynch_forget_sleeper pod3 thread else pod3)"
  define pod5 where "pod5 = xnsynch_release_all_ownerships env thread pod4"
  define pod6 where "pod6 = xnpod_giveup_fpu cfg pod5 sch thread"
  define pod7 where "pod7 = xnthread_set_state pod6 thread XNZOMBIE"
  have i1: "pod_inv pod1" using inv by (simp add: pod1_def)
  have i2: "pod_inv pod2" using i1 by (simp add: pod2_def pod_inv_clear_state)
  have i3: "pod_inv pod3" using i2 by (simp add: pod3_def pod_inv_upd_same)
  have i4: "pod_inv pod4" using i3 by (simp add: pod4_def pod_inv_forget_sleeper)
  have i5: "pod_inv pod5" using i4 env by (simp add: pod5_def env_inv_def)
  have i6: "pod_inv pod6" using i5 by (simp add: pod6_def)
  have i7: "pod_inv pod7"
    unfolding pod7_def using i6 by (intro pod_inv_set_state) (simp_all add: zombie_bits)
  have i8: "pod_inv (xnpod_schedule env (xnsched_set_resched pod7 sch))"
    using i7 env by (simp add: env_inv_def)
  from r show ?thesis
    unfolding xnpod_delete_thread_def Let_def sch_def[symmetric] pod1_def[symmetric]
      pod2_def[symmetric] pod3_def[symmetric] pod4_def[symmetric] pod5_def[symmetric]
      pod6_def[symmetric] pod7_def[symmetric]
    using inv i7 i8
    by (auto split: if_splits)
qed

lemma pod_inv_pod_boot: "pod_inv pod_boot"
  by (simp add: pod_inv_def thread_inv_def sample_defs state_bits)

lemma pod_inv_pod_ready: "pod_inv pod_ready"
  by (simp add: pod_inv_def thread_inv_def pod_ready_def upd_sched_def upd_thread_def
      sample_defs state_bits)

lemma env_inv_env_quiet: "env_inv env_quiet"
  by (simp add: env_inv_def env_quiet_def)


lemma sample_suspend:
  "xnpod_suspend_thread env_quiet cfg_debug pod_ready 1 XNSUSP XN_INFINITE XN_RELATIVE None =
     Inr (upd_sched (upd_thread pod_boot 1 (\<lambda>t. t\<lparr>state := XNSTARTED OR XNSUSP\<rparr>)) 0
            (\<lambda>s. s\<lparr>runq := {}\<rparr>))"
  by (simp add: suspend_defs Let_def thread_macros sched_prims pod_ready_def sample_defs
      state_bits info_bits timer_defs)

lemma sample_start:
  "state (tcb (snd (xnpod_start_thread env_quiet cfg_debug pod_ready 2 0 0 {0} 0 0)) 2) =
     XNSTARTED OR XNREADY"
  by (simp add: xnpod_start_thread_def Let_def resume_defs thread_macros sched_prims
      pod_ready_def sample_defs state_bits)

lemma sample_delete:
  "xnpod_delete_thread env_quiet cfg_debug pod_ready 1 =
     Inr ((upd_sched (upd_thread pod_boot 1 (\<lambda>t. t\<lparr>state := XNSTARTED OR XNZOMBIE\<rparr>)) 0
            (\<lambda>s. s\<lparr>runq := {}\<rparr>))\<lparr>threadq := [0, 2], threadq_rev := 4\<rparr>)"
  by (simp add: xnpod_delete_thread_def Let_def thread_macros sched_prims pod_ready_def
      sample_defs state_bits timer_defs xnpod_giveup_fpu_def xnpod_current_thread_def
      removeq_def)

text \<open>
  Claim C1. From a consistent pod, each of \<^verbatim>\<open>xnpod_suspend_thread\<close> (admissible
  arguments), \<^verbatim>\<open>xnpod_resume_thread\<close>, \<^verbatim>\<open>xnpod_unblock_thread\<close>,
  \<^verbatim>\<open>xnpod_start_thread\<close> and \<^verbatim>\<open>xnpod_delete_thread\<close> leads to a consistent pod:
  for every thread, \<^verbatim>\<open>XNREADY\<close> is never set together with a bit of
  \<^verbatim>\<open>XNTHREAD_BLOCK_BITS\<close>. The collaborators called on the way are taken to keep
  the pod consistent; a call halted by \<^verbatim>\<open>xnpod_fatal\<close> has no state after it.
\<close>

theorem ready_excludes_blocking:
  assumes "pod_inv pod" and "env_inv env"
  shows "(suspend_admissible pod thread msk wchn \<longrightarrow>
            (\<forall>pod'. xnpod_suspend_thread env cfg pod thread msk timeout timeout_mode wchn = Inr pod'
                 \<longrightarrow> pod_inv pod')) \<and>
         pod_inv (xnpod_resume_thread pod thread msk) \<and>
         pod_inv (snd (xnpod_unblock_thread pod thread)) \<and>
         pod_inv (snd (xnpod_start_thread env cfg pod thread mode imsk affin entr cook)) \<and>
         (\<forall>pod'. xnpod_delete_thread env cfg pod thread = Inr pod' \<longrightarrow> pod_inv pod')"
  using assms
  by (blast intro: pod_inv_suspend pod_inv_resume pod_inv_unblock pod_inv_start pod_inv_delete)

theorem ready_excludes_blocking_witness:
  "pod_inv pod_ready \<and> env_inv env_quiet \<and> suspend_admissible pod_ready 1 XNSUSP None \<and>
   xnpod_suspend_thread env_quiet cfg_debug pod_ready 1 XNSUSP XN_INFINITE XN_RELATIVE None =
     Inr (upd_sched (upd_thread pod_boot 1 (\<lambda>t. t\<lparr>state := XNSTARTED OR XNSUSP\<rparr>)) 0
            (\<lambda>s. s\<lparr>runq := {}\<rparr>)) \<and>
   pod_inv (upd_sched (upd_thread pod_boot 1 (\<lambda>t. t\<lparr>state := XNSTARTED OR XNSUSP\<rparr>)) 0
              (\<lambda>s. s\<lparr>runq := {}\<rparr>)) \<and>
   pod_inv (xnpod_resume_thread pod_ready 1 XNSUSP) \<and>
   pod_inv (snd (xnpod_unblock_thread pod_ready 1)) \<and>
   state (tcb (snd (xnpod_start_thread env_quiet cfg_debug pod_ready 2 0 0 {0} 0 0)) 2) =
     XNSTARTED OR XNREADY \<and>
   pod_inv (snd (xnpod_start_thread env_quiet cfg_debug pod_ready 2 0 0 {0} 0 0)) \<and>
   xnpod_delete_thread env_quiet cfg_debug pod_ready 1 =
     Inr ((upd_sched (upd_thread pod_boot 1 (\<lambda>t. t\<lparr>state := XNSTARTED OR XNZOMBIE\<rparr>)) 0
            (\<lambda>s. s\<lparr>runq := {}\<rparr>))\<lparr>threadq := [0, 2], threadq_rev := 4\<rparr>) \<and>
   pod_inv ((upd_sched (upd_thread pod_boot 1 (\<lambda>t. t\<lparr>state := XNSTARTED OR XNZOMBIE\<rparr>)) 0
            (\<lambda>s. s\<lparr>runq := {}\<rparr>))\<lparr>threadq := [0, 2], threadq_rev := 4\<rparr>)"
proof -
  have adm: "suspend_admissible pod_ready 1 XNSUSP None"
    by (simp add: suspend_admissible_def state_bits)
  note step = ready_excludes_blocking[OF pod_inv_pod_ready env_inv_env_quiet,
      where thread = 1 and msk = XNSUSP and wchn = None and cfg = cfg_debug
        and timeout = XN_INFINITE and timeout_mode = XN_RELATIVE]
  note step2 = ready_excludes_blocking[OF pod_inv_pod_ready env_inv_env_quiet,
      where thread = 2 and cfg = cfg_debug and mode = 0 and imsk = 0 and affin = "{0}"
        and entr = 0 and cook = 0]
  from step adm sample_suspend have a: "pod_inv (upd_sched (upd_thread pod_boot 1 (\<lambda>t. t\<lparr>state := XNSTARTED OR XNSUSP\<rparr>)) 0
              (\<lambda>s. s\<lparr>runq := {}\<rparr>))" by blast
  from step have b: "pod_inv (xnpod_resume_thread pod_ready 1 XNSUSP)"
    "pod_inv (snd (xnpod_unblock_thread pod_ready 1))" by blast+
  from step2 have c: "pod_inv (snd (xnpod_start_thread env_quiet cfg_debug pod_ready 2 0 0 {0} 0 0))"
    by blast
  from step sample_delete have d: "pod_inv ((upd_sched (upd_thread pod_boot 1 (\<lambda>t. t\<lparr>state := XNSTARTED OR XNZOMBIE\<rparr>)) 0
            (\<lambda>s. s\<lparr>runq := {}\<rparr>))\<lparr>threadq := [0, 2], threadq_rev := 4\<rparr>)" by blast
  from pod_inv_pod_ready env_inv_env_quiet adm sample_suspend a b sample_start c sample_delete d
  show ?thesis by blast
qed

subsection \<open>Sequences of calls, and the limit of the invariant\<close>

text \<open>The invariant holds after every admissible sequence of calls that runs to its end.\<close>

lemma pod_inv_run_call:
  assumes "pod_inv pod" "env_inv env" "call_admissible pod c" "run_call env cfg pod c = Inr pod'"
  shows "pod_inv pod'"
  using assms
  by (cases c)
     (auto intro: pod_inv_suspend pod_inv_resume pod_inv_unblock pod_inv_start pod_inv_delete)

lemma pod_inv_run_calls:
  assumes "env_inv env"
  shows "pod_inv pod \<Longrightarrow> calls_admissible env cfg pod cs \<Longrightarrow>
         run_calls env cfg pod cs = Inr pod' \<Longrightarrow> pod_inv pod'"
proof (induction cs arbitrary: pod)
  case Nil
  then show ?case by simp
next
  case (Cons c cs)
  from Cons.prems(3) obtain pod1 where r: "run_call env cfg pod c = Inr pod1"
    and rest: "run_calls env cfg pod1 cs = Inr pod'"
    by (auto split: sum.splits)
  from Cons.prems(2) r have adm: "call_admissible pod c" "calls_admissible env cfg pod1 cs"
    by simp_all
  from pod_inv_run_call[OF Cons.prems(1) assms adm(1) r] have "pod_inv pod1" .
  from Cons.IH[OF this adm(2) rest] show ?case .
qed

text \<open>
  The second half of the invariant cannot be dropped. Lifting the delay from a thread that
  has \<^verbatim>\<open>XNPEND\<close> but no wait channel (a state no admissible call produces) falls
  through to the \<^verbatim>\<open>clear_wchan\<close> label and links the thread to the ready queue with
  \<^verbatim>\<open>XNPEND\<close> still set.
\<close>

lemma resume_pend_without_wchan:
  "state (tcb (xnpod_resume_thread
                 (upd_thread pod_boot 1 (\<lambda>t. t\<lparr>state := XNSTARTED OR XNPEND OR XNDELAY\<rparr>))
                 1 XNDELAY) 1) =
     XNSTARTED OR XNPEND OR XNREADY"
  by (simp add: resume_defs Let_def thread_macros sched_prims sample_defs state_bits)

end
